theory Spec2Isabelle
  imports Main "HOL-Library.Multiset"
begin

section \<open>Bytes, errors and effects\<close>

text \<open>
  A Go \<^verbatim>\<open>string\<close> and a Go \<^verbatim>\<open>[]byte\<close> are both sequences of bytes; the conversions
  \<^verbatim>\<open>string(b)\<close> and \<^verbatim>\<open>[]byte(s)\<close> copy the bytes unchanged.  Both are modelled by
  \<^typ>\<open>string\<close>, whose characters are the 256 byte values.  A nil slice is identified with
  the empty list.
\<close>

type_synonym bytes = string

text \<open>Every error value the modelled code can return or receive from a collaborator.\<close>

datatype error =
    ReadError
  | MediaTypeError
  | MultipartError
  | EscapeError string
  | SemicolonError
  | MarshalError
  | PublishError
  | UnmarshalTypeError
  | CorruptInputError
  | UnsupportedEncoding string
  | DecodeTextError error
  | StorageError

text \<open>
  The effects of the capture path that are visible outside the process: events of the
  global zerolog logger (level, the \<^verbatim>\<open>Str\<close> fields in call order, message) and calls of
  \<^verbatim>\<open>channel.Publish\<close> (exchange, routing key, mandatory, immediate, content type, body).
  Of an event written with a format string (\<^verbatim>\<open>Msgf\<close>) the message is the text of the format up
  to its first verb.
\<close>

datatype level = ErrorLevel | InfoLevel

datatype event =
    Log level "(string \<times> string) list" string
  | Publish string string bool bool string bytes

section \<open>The HTTP request as the capture code reads it\<close>

text \<open>
  \<^verbatim>\<open>req.Body\<close> is an \<^verbatim>\<open>io.ReadCloser\<close>: the bytes still to be delivered, and whether
  the reader ends with a read error instead of \<^verbatim>\<open>io.EOF\<close>.  \<^verbatim>\<open>ioutil.ReadAll\<close> drains it.
\<close>

record Body =
  pending :: bytes
  fault :: bool

definition NewReader :: "bytes \<Rightarrow> Body" where
  "NewReader data = \<lparr>pending = data, fault = False\<rparr>"

definition ReadAll :: "Body \<Rightarrow> (error + bytes) \<times> Body" where
  "ReadAll b =
     (if fault b then Inl ReadError else Inr (pending b), b\<lparr>pending := []\<rparr>)"

text \<open>The per-request martian context: \<^verbatim>\<open>ctx.ID()\<close> and \<^verbatim>\<open>ctx.SkippingLogging()\<close>.\<close>

record Context =
  ctx_ID :: string
  ctx_SkippingLogging :: bool

record http_Cookie =
  http_Cookie_Name :: string
  http_Cookie_Value :: string
  http_Cookie_Path :: string
  http_Cookie_Domain :: string
  http_Cookie_Expires :: "int option"
  http_Cookie_HttpOnly :: bool
  http_Cookie_Secure :: bool

text \<open>
  \<^verbatim>\<open>http.Header\<close> and \<^verbatim>\<open>url.Values\<close> are Go maps from a name to the slice of its values.
  \<^verbatim>\<open>req_URL\<close> is \<^verbatim>\<open>req.URL.String()\<close>, \<^verbatim>\<open>req_RawQuery\<close> is \<^verbatim>\<open>req.URL.RawQuery\<close>,
  \<^verbatim>\<open>req_Cookies\<close> is \<^verbatim>\<open>req.Cookies()\<close> and \<^verbatim>\<open>req_Context\<close> is \<^verbatim>\<open>martian.NewContext(req)\<close>.
\<close>

type_synonym Values = "string \<rightharpoonup> string list"

record http_Request =
  req_Method :: string
  req_URL :: string
  req_RawQuery :: string
  req_Proto :: string
  req_Host :: string
  req_ContentLength :: int
  req_TransferEncoding :: "string list"
  req_Header :: Values
  req_Cookies :: "http_Cookie list"
  req_Body :: Body
  req_Context :: Context

text \<open>\<^verbatim>\<open>Header.Get\<close>: the first value stored under the (canonical) key, or the empty string.\<close>

definition Header_Get :: "Values \<Rightarrow> string \<Rightarrow> string" where
  "Header_Get h k = (case h k of Some (v # _) \<Rightarrow> v | _ \<Rightarrow> [])"

subsection \<open>Ranging over a Go map\<close>

text \<open>
  \<^verbatim>\<open>for n, vs := range m\<close> visits every key of the map exactly once, in an order the Go
  runtime chooses (the language leaves it unspecified and the runtime randomises it).  The
  order chosen for one loop is an argument \<open>ks\<close> of the model; \<open>range_order ks m\<close> says that
  \<open>ks\<close> is an order the runtime may choose for \<open>m\<close>.
\<close>

definition range_order :: "string list \<Rightarrow> Values \<Rightarrow> bool" where
  "range_order ks m = (distinct ks \<and> set ks = dom m)"

text \<open>The nested loop \<^verbatim>\<open>for n, vs := range m { for _, v := range vs { ... (n, v) ... } }\<close>.\<close>

definition range_pairs :: "string list \<Rightarrow> Values \<Rightarrow> (string \<times> string) list" where
  "range_pairs ks m =
     concat (map (\<lambda>n. case m n of None \<Rightarrow> [] | Some vs \<Rightarrow> map (Pair n) vs) ks)"

section \<open>\<^verbatim>\<open>net/url\<close>: query parsing\<close>

definition ishex :: "char \<Rightarrow> bool" where
  "ishex c =
     (let n = (of_char c :: nat)
      in (48 \<le> n \<and> n \<le> 57) \<or> (97 \<le> n \<and> n \<le> 102) \<or> (65 \<le> n \<and> n \<le> 70))"

definition unhex :: "char \<Rightarrow> nat" where
  "unhex c =
     (let n = (of_char c :: nat)
      in if 48 \<le> n \<and> n \<le> 57 then n - 48
         else if 97 \<le> n \<and> n \<le> 102 then n - 97 + 10
         else if 65 \<le> n \<and> n \<le> 70 then n - 65 + 10
         else 0)"

text \<open>
  \<^verbatim>\<open>url.QueryUnescape\<close>: \<^verbatim>\<open>%XX\<close> becomes the byte XX, \<^verbatim>\<open>+\<close> becomes a space, and a
  \<^verbatim>\<open>%\<close> not followed by two hexadecimal digits is an \<^verbatim>\<open>EscapeError\<close> carrying at most the
  three bytes from the \<^verbatim>\<open>%\<close> on.
\<close>

fun QueryUnescape :: "string \<Rightarrow> error + string" where
  "QueryUnescape [] = Inr []"
| "QueryUnescape (c # s) =
     (if c = CHR ''%'' then
        (case s of
           a # b # r \<Rightarrow>
             if ishex a \<and> ishex b
             then (case QueryUnescape r of
                     Inl e \<Rightarrow> Inl e
                   | Inr t \<Rightarrow> Inr (char_of (unhex a * 16 + unhex b) # t))
             else Inl (EscapeError (take 3 (c # s)))
         | _ \<Rightarrow> Inl (EscapeError (take 3 (c # s))))
      else
        (case QueryUnescape s of
           Inl e \<Rightarrow> Inl e
         | Inr t \<Rightarrow> Inr ((if c = CHR ''+'' then CHR '' '' else c) # t)))"

text \<open>\<^verbatim>\<open>strings.Cut(s, sep)\<close> for a one-byte separator, applied until the string is used up.\<close>

fun split_on :: "char \<Rightarrow> string \<Rightarrow> string list" where
  "split_on c [] = [[]]"
| "split_on c (x # xs) =
     (if x = c then [] # split_on c xs
      else (case split_on c xs of
              w # ws \<Rightarrow> (x # w) # ws
            | [] \<Rightarrow> [[x]]))"

text \<open>
  One turn of the loop of \<^verbatim>\<open>parseQuery\<close> (Go 1.17 and later, where \<^verbatim>\<open>&\<close> is the only
  separator) on the setting \<open>key\<close> cut off at the next \<^verbatim>\<open>&\<close>: a setting that holds a
  semicolon is an error, an empty one is skipped, one with a malformed escape in its name
  or value is an error, and any other gives a name and a value.
\<close>

datatype setting =
    Semicolon
  | Skipped
  | Malformed error
  | Setting string string

definition parse_setting :: "string \<Rightarrow> setting" where
  "parse_setting key =
     (if CHR '';'' \<in> set key then Semicolon
      else if key = [] then Skipped
      else
        (let k = takeWhile (\<lambda>c. c \<noteq> CHR ''='') key;
             v = drop 1 (dropWhile (\<lambda>c. c \<noteq> CHR ''='') key)
         in case QueryUnescape k of
              Inl err1 \<Rightarrow> Malformed err1
            | Inr k' \<Rightarrow>
                (case QueryUnescape v of
                   Inl err1 \<Rightarrow> Malformed err1
                 | Inr v' \<Rightarrow> Setting k' v')))"

text \<open>\<^verbatim>\<open>m[key] = append(m[key], value)\<close>.\<close>

definition Values_append :: "Values \<Rightarrow> string \<Rightarrow> string \<Rightarrow> Values" where
  "Values_append m k v = m(k \<mapsto> (case m k of None \<Rightarrow> [v] | Some vs \<Rightarrow> vs @ [v]))"

text \<open>
  \<^verbatim>\<open>parseQuery\<close>: every well-formed setting is added to the map.  A semicolon sets the
  returned error; a malformed escape sets it when none is set yet.  The map built from
  the other settings is returned with the error.
\<close>

fun parseQuery :: "Values \<Rightarrow> error option \<Rightarrow> string list \<Rightarrow> Values \<times> error option" where
  "parseQuery m err [] = (m, err)"
| "parseQuery m err (key # rest) =
     (case parse_setting key of
        Semicolon \<Rightarrow> parseQuery m (Some SemicolonError) rest
      | Skipped \<Rightarrow> parseQuery m err rest
      | Malformed err1 \<Rightarrow> parseQuery m (if err = None then Some err1 else err) rest
      | Setting k v \<Rightarrow> parseQuery (Values_append m k v) err rest)"

definition ParseQuery :: "string \<Rightarrow> Values \<times> error option" where
  "ParseQuery query = parseQuery Map.empty None (split_on CHR ''&'' query)"

text \<open>
  For stating what the loops over a parsed form produce: the name/value pairs of the
  well-formed settings of a query, in the order of the text, and the values a list of
  pairs gives for one name, in the order of the list.
\<close>

definition setting_pair :: "string \<Rightarrow> (string \<times> string) option" where
  "setting_pair key = (case parse_setting key of Setting k v \<Rightarrow> Some (k, v) | _ \<Rightarrow> None)"

definition form_pairs :: "string \<Rightarrow> (string \<times> string) list" where
  "form_pairs body = List.map_filter setting_pair (split_on CHR ''&'' body)"

definition values_of :: "string \<Rightarrow> (string \<times> string) list \<Rightarrow> string list" where
  "values_of n kvs = map snd (filter (\<lambda>kv. fst kv = n) kvs)"

section \<open>\<^verbatim>\<open>unicode/utf8\<close>: valid text\<close>

definition in_range :: "char \<Rightarrow> nat \<Rightarrow> nat \<Rightarrow> bool" where
  "in_range c lo hi = (lo \<le> of_char c \<and> (of_char c :: nat) \<le> hi)"

text \<open>
  The number of bytes of the UTF-8 encoding the string starts with, by the table of first
  bytes and accept ranges of \<^verbatim>\<open>utf8.DecodeRuneInString\<close>; \<open>0\<close> where the decoder answers
  \<^verbatim>\<open>(RuneError, 1)\<close> or \<^verbatim>\<open>(RuneError, 0)\<close>: the string is empty or does not start with a
  well-formed encoding.
\<close>

fun rune_size :: "string \<Rightarrow> nat" where
  "rune_size [] = 0"
| "rune_size (c # s) =
     (let b = (of_char c :: nat)
      in if b < 0x80 then 1
         else if 0xC2 \<le> b \<and> b \<le> 0xDF then
           (case s of
              c1 # _ \<Rightarrow> if in_range c1 0x80 0xBF then 2 else 0
            | _ \<Rightarrow> 0)
         else if 0xE0 \<le> b \<and> b \<le> 0xEF then
           (case s of
              c1 # c2 # _ \<Rightarrow>
                if in_range c1 (if b = 0xE0 then 0xA0 else 0x80) (if b = 0xED then 0x9F else 0xBF)
                   \<and> in_range c2 0x80 0xBF
                then 3 else 0
            | _ \<Rightarrow> 0)
         else if 0xF0 \<le> b \<and> b \<le> 0xF4 then
           (case s of
              c1 # c2 # c3 # _ \<Rightarrow>
                if in_range c1 (if b = 0xF0 then 0x90 else 0x80) (if b = 0xF4 then 0x8F else 0xBF)
                   \<and> in_range c2 0x80 0xBF \<and> in_range c3 0x80 0xBF
                then 4 else 0
            | _ \<Rightarrow> 0)
         else 0)"

text \<open>\<^verbatim>\<open>utf8.ValidString\<close>: the string is a sequence of well-formed encodings.\<close>

function ValidString :: "string \<Rightarrow> bool" where
  "ValidString s =
     (if s = [] then True
      else if rune_size s = 0 then False
      else ValidString (drop (rune_size s) s))"
  by pat_completeness auto
termination
  by (relation "measure length") auto

text \<open>A string of bytes below 128.\<close>

definition ascii :: "string \<Rightarrow> bool" where
  "ascii s = (\<forall>c \<in> set s. (of_char c :: nat) < 128)"

text \<open>
  What \<^verbatim>\<open>encoding/json\<close> makes of a Go string when it writes it: every byte that does not
  start a well-formed encoding is replaced by U+FFFD (the bytes EF BF BD), the rest is
  kept.
\<close>

function json_coerce :: "string \<Rightarrow> string" where
  "json_coerce s =
     (if s = [] then []
      else if rune_size s = 0
        then [CHR 0xEF, CHR 0xBF, CHR 0xBD]
               @ json_coerce (drop 1 s)
      else take (rune_size s) s @ json_coerce (drop (rune_size s) s))"
  by pat_completeness auto
termination
  by (relation "measure length") auto

section \<open>\<^verbatim>\<open>encoding/base64\<close>: the standard encoding\<close>

definition encodeStd :: string where
  "encodeStd = ''ABCDEFGHIJKLMNOPQRSTUVWXYZabcdefghijklmnopqrstuvwxyz0123456789+/''"

definition enc64 :: "nat \<Rightarrow> char" where
  "enc64 n = encodeStd ! n"

fun index_of :: "'a \<Rightarrow> 'a list \<Rightarrow> nat option" where
  "index_of x [] = None"
| "index_of x (y # ys) =
     (if x = y then Some 0 else map_option Suc (index_of x ys))"

definition decodeMap :: "char \<Rightarrow> nat option" where
  "decodeMap c = index_of c encodeStd"

text \<open>\<^verbatim>\<open>base64.StdEncoding.EncodeToString\<close>: three bytes to four characters, padded with \<^verbatim>\<open>=\<close>.\<close>

fun EncodeToString :: "bytes \<Rightarrow> string" where
  "EncodeToString [] = []"
| "EncodeToString [a] =
     (let x = (of_char a :: nat)
      in [enc64 (x div 4), enc64 (x mod 4 * 16), CHR ''='', CHR ''=''])"
| "EncodeToString [a, b] =
     (let x = (of_char a :: nat); y = (of_char b :: nat)
      in [enc64 (x div 4), enc64 (x mod 4 * 16 + y div 16), enc64 (y mod 16 * 4), CHR ''=''])"
| "EncodeToString (a # b # c # rest) =
     (let x = (of_char a :: nat); y = (of_char b :: nat); z = (of_char c :: nat)
      in [enc64 (x div 4), enc64 (x mod 4 * 16 + y div 16),
          enc64 (y mod 16 * 4 + z div 64), enc64 (z mod 64)] @ EncodeToString rest)"

text \<open>
  The quanta of \<^verbatim>\<open>base64.StdEncoding.DecodeString\<close>, after the line breaks are dropped: four
  characters of the alphabet give three bytes; the last quantum may end in one or two
  \<^verbatim>\<open>=\<close> and gives two bytes or one; anything else is a \<^verbatim>\<open>CorruptInputError\<close>.
\<close>

fun decode_quanta :: "string \<Rightarrow> error + bytes" where
  "decode_quanta [] = Inr []"
| "decode_quanta (a # b # c # d # rest) =
     (case (decodeMap a, decodeMap b) of
        (Some x, Some y) \<Rightarrow>
          if c = CHR ''='' \<and> d = CHR ''='' \<and> rest = [] then Inr [char_of (x * 4 + y div 16)]
          else
            (case decodeMap c of
               None \<Rightarrow> Inl CorruptInputError
             | Some z \<Rightarrow>
                 if d = CHR ''='' \<and> rest = []
                 then Inr [char_of (x * 4 + y div 16), char_of (y mod 16 * 16 + z div 4)]
                 else
                   (case decodeMap d of
                      None \<Rightarrow> Inl CorruptInputError
                    | Some w \<Rightarrow>
                        (case decode_quanta rest of
                           Inl e \<Rightarrow> Inl e
                         | Inr bs \<Rightarrow>
                             Inr (char_of (x * 4 + y div 16)
                                  # char_of (y mod 16 * 16 + z div 4)
                                  # char_of (z mod 4 * 64 + w) # bs))))
      | _ \<Rightarrow> Inl CorruptInputError)"
| "decode_quanta _ = Inl CorruptInputError"

definition DecodeString :: "string \<Rightarrow> error + bytes" where
  "DecodeString s =
     decode_quanta (filter (\<lambda>c. c \<noteq> CHR 0x0D \<and> c \<noteq> CHR 0x0A) s)"

section \<open>JSON values\<close>

text \<open>
  \<^verbatim>\<open>json.Marshal\<close> and \<^verbatim>\<open>json.Unmarshal\<close> are modelled on JSON values: what the encoder
  writes and what the decoder has parsed.  The text layer (quoting, escapes, white space)
  is not modelled.  An object is the list of its members in the order of the text; a
  number is an integer; a string is the unquoted string, as the parser hands it to the
  decoder.
\<close>

datatype json =
    JNull
  | JBool bool
  | JNum int
  | JString string
  | JArray "json list"
  | JObject "(string \<times> json) list"

text \<open>A string as the encoder writes it.\<close>

definition json_str :: "string \<Rightarrow> json" where
  "json_str s = JString (json_coerce s)"

text \<open>A struct field tagged \<^verbatim>\<open>omitempty\<close>: left out when the string is empty.\<close>

definition omitempty :: "string \<Rightarrow> string \<Rightarrow> (string \<times> json) list" where
  "omitempty name s = (if s = [] then [] else [(name, json_str s)])"

text \<open>The member of an object as a reader of the output finds it.\<close>

definition json_member :: "json \<Rightarrow> string \<Rightarrow> json option" where
  "json_member j name = (case j of JObject fs \<Rightarrow> map_of fs name | _ \<Rightarrow> None)"

text \<open>
  The decoder matches a member's key to a struct field without regard to letter case;
  the keys are compared in lower case (ASCII; the two non-ASCII letters Go folds to
  \<^verbatim>\<open>k\<close> and \<^verbatim>\<open>s\<close> are not modelled).
\<close>

definition lower_ascii :: "string \<Rightarrow> string" where
  "lower_ascii s =
     map (\<lambda>c. if in_range c 65 90 then char_of ((of_char c :: nat) + 32) else c) s"

text \<open>
  Decoding into a struct: the members are taken in the order of the text, each one is
  stored into the field its key names (\<open>store\<close> ignores a key that names none), the first
  error is remembered and decoding goes on.
\<close>

fun decode_members ::
  "(string \<Rightarrow> json \<Rightarrow> 'a \<Rightarrow> error + 'a) \<Rightarrow> (string \<times> json) list \<Rightarrow> 'a \<Rightarrow> error option
     \<Rightarrow> 'a \<times> error option" where
  "decode_members store [] x err = (x, err)"
| "decode_members store ((k, v) # fs) x err =
     (case store (lower_ascii k) v x of
        Inl e \<Rightarrow> decode_members store fs x (if err = None then Some e else err)
      | Inr x' \<Rightarrow> decode_members store fs x' err)"

definition decode_struct ::
  "(string \<Rightarrow> json \<Rightarrow> 'a \<Rightarrow> error + 'a) \<Rightarrow> json \<Rightarrow> 'a \<Rightarrow> error + 'a" where
  "decode_struct store data x =
     (case data of
        JNull \<Rightarrow> Inr x
      | JObject fs \<Rightarrow>
          (case decode_members store fs x None of
             (x', None) \<Rightarrow> Inr x'
           | (x', Some e) \<Rightarrow> Inl e)
      | _ \<Rightarrow> Inl UnmarshalTypeError)"

text \<open>Decoding a value into a \<^verbatim>\<open>string\<close> and an \<^verbatim>\<open>int64\<close> that hold \<open>cur\<close>.\<close>

definition decode_string :: "json \<Rightarrow> string \<Rightarrow> error + string" where
  "decode_string v cur =
     (case v of
        JNull \<Rightarrow> Inr cur
      | JString s \<Rightarrow> Inr s
      | _ \<Rightarrow> Inl UnmarshalTypeError)"

definition decode_int64 :: "json \<Rightarrow> int \<Rightarrow> error + int" where
  "decode_int64 v cur =
     (case v of
        JNull \<Rightarrow> Inr cur
      | JNum n \<Rightarrow>
          if - (2 ^ 63) \<le> n \<and> n < 2 ^ 63 then Inr n else Inl UnmarshalTypeError
      | _ \<Rightarrow> Inl UnmarshalTypeError)"

text \<open>
  Decoding an array into a slice that holds \<open>cur\<close>: element \<open>i\<close> of the array is decoded
  into element \<open>i\<close> of the slice where the slice has one, and into a zero value
  where it has not; the slice ends with the array.  (A slice has no spare capacity here.)
\<close>

fun decode_uint8s :: "json list \<Rightarrow> bytes \<Rightarrow> error + bytes" where
  "decode_uint8s [] cur = Inr []"
| "decode_uint8s (j # js) cur =
     (case (case j of
              JNull \<Rightarrow> Inr (case cur of [] \<Rightarrow> CHR 0x00 | c # _ \<Rightarrow> c)
            | JNum n \<Rightarrow>
                if 0 \<le> n \<and> n \<le> 255 then Inr (char_of (nat n)) else Inl UnmarshalTypeError
            | _ \<Rightarrow> Inl UnmarshalTypeError) of
        Inl e \<Rightarrow> Inl e
      | Inr b \<Rightarrow>
          (case decode_uint8s js (tl cur) of
             Inl e \<Rightarrow> Inl e
           | Inr bs \<Rightarrow> Inr (b # bs)))"

text \<open>
  Decoding a value into a \<^verbatim>\<open>[]byte\<close> that holds \<open>cur\<close>: a string is read as base64, an
  array as the bytes it lists.
\<close>

definition decode_bytes :: "json \<Rightarrow> bytes \<Rightarrow> error + bytes" where
  "decode_bytes v cur =
     (case v of
        JNull \<Rightarrow> Inr []
      | JString s \<Rightarrow> DecodeString s
      | JArray js \<Rightarrow> decode_uint8s js cur
      | _ \<Rightarrow> Inl UnmarshalTypeError)"

section \<open>The capture model (HAR records)\<close>

record Creator =
  Creator_Name :: string
  Creator_Version :: string

record Header =
  Header_Name :: string
  Header_Value :: string

record QueryString =
  QueryString_Name :: string
  QueryString_Value :: string

text \<open>\<^verbatim>\<open>Expires\<close> is a \<^verbatim>\<open>time.Time\<close>; \<open>None\<close> is the zero time.\<close>

record Cookie =
  Cookie_Name :: string
  Cookie_Value :: string
  Cookie_Path :: string
  Cookie_Domain :: string
  Cookie_Expires :: "int option"
  Cookie_Expires8601 :: string
  Cookie_HTTPOnly :: bool
  Cookie_Secure :: bool

record Param =
  Param_Name :: string
  Param_Value :: string
  Param_Filename :: string
  Param_ContentType :: string

record PostData =
  PostData_MimeType :: string
  PostData_Params :: "Param list"
  PostData_Text :: string

record pdBinary =
  pdBinary_MimeType :: string
  pdBinary_Params :: "Param list"
  pdBinary_Text :: bytes
  pdBinary_Encoding :: string

record Content =
  Content_Size :: int
  Content_MimeType :: string
  Content_Text :: bytes
  Content_Encoding :: string

record contentJSON =
  contentJSON_Size :: int
  contentJSON_MimeType :: string
  contentJSON_Text :: string
  contentJSON_Encoding :: string

record Request =
  Request_Method :: string
  Request_URL :: string
  Request_HTTPVersion :: string
  Request_Cookies :: "Cookie list"
  Request_Headers :: "Header list"
  Request_QueryString :: "QueryString list"
  Request_PostData :: "PostData option"
  Request_HeadersSize :: int
  Request_BodySize :: int

record Response =
  Response_Status :: int
  Response_StatusText :: string
  Response_HTTPVersion :: string
  Response_Cookies :: "Cookie list"
  Response_Headers :: "Header list"
  Response_Content :: "Content option"
  Response_RedirectURL :: string
  Response_HeadersSize :: int
  Response_BodySize :: int

record Timings =
  Timings_Send :: int
  Timings_Wait :: int
  Timings_Receive :: int

text \<open>
  \<^verbatim>\<open>Cache\<close> is a struct with no fields.  The pointer \<^verbatim>\<open>next\<close> of an entry, like the
  pointers the logger keeps, is the ID of the entry pointed to.
\<close>

record Entry =
  Entry_ID :: string
  Entry_StartedDateTime :: int
  Entry_Time :: int
  Entry_Request :: Request
  Entry_Host :: string
  Entry_Response :: "Response option"
  Entry_Cache :: unit
  Entry_Timings :: Timings
  Entry_next :: "string option"

section \<open>The codec: \<^verbatim>\<open>MarshalJSON\<close> and \<^verbatim>\<open>UnmarshalJSON\<close>\<close>

text \<open>
  \<^verbatim>\<open>json.Marshal\<close> of a \<^verbatim>\<open>Param\<close> and of the slice of them, by the struct tags.  The list
  stands for a slice that is not nil (\<^verbatim>\<open>postData\<close> always sets \<^verbatim>\<open>Params\<close> to one); a nil
  slice, which the encoder writes as \<^verbatim>\<open>null\<close>, is not told apart from the empty one.
\<close>

definition Param_json :: "Param \<Rightarrow> json" where
  "Param_json p =
     JObject ([(''name'', json_str (Param_Name p))]
              @ omitempty ''value'' (Param_Value p)
              @ omitempty ''fileName'' (Param_Filename p)
              @ omitempty ''contentType'' (Param_ContentType p))"

definition Params_json :: "Param list \<Rightarrow> json" where
  "Params_json ps = JArray (map Param_json ps)"

text \<open>
  \<^verbatim>\<open>PostData.MarshalJSON\<close>: the struct itself when the text is valid UTF-8, the \<^verbatim>\<open>pdBinary\<close>
  form otherwise, whose \<^verbatim>\<open>[]byte\<close> text the encoder writes in base64.
\<close>

definition PostData_MarshalJSON :: "PostData \<Rightarrow> error + json" where
  "PostData_MarshalJSON p =
     (if ValidString (PostData_Text p) then
        Inr (JObject [(''mimeType'', json_str (PostData_MimeType p)),
                      (''params'', Params_json (PostData_Params p)),
                      (''text'', json_str (PostData_Text p))])
      else
        (let pb = \<lparr>pdBinary_MimeType = PostData_MimeType p,
                   pdBinary_Params = PostData_Params p,
                   pdBinary_Text = PostData_Text p,
                   pdBinary_Encoding = ''base64''\<rparr>
         in Inr (JObject [(''mimeType'', json_str (pdBinary_MimeType pb)),
                          (''params'', Params_json (pdBinary_Params pb)),
                          (''text'', json_str (EncodeToString (pdBinary_Text pb))),
                          (''encoding'', json_str (pdBinary_Encoding pb))])))"

text \<open>
  Storing one member into a \<^verbatim>\<open>Param\<close>, and decoding an array of them into the slice that
  holds \<open>cur\<close>: element \<open>i\<close> of the array is decoded into element \<open>i\<close> of the slice where the
  slice has one (a member the element does not have keeps its value), and into a zero
  \<^verbatim>\<open>Param\<close> where it has not; \<^verbatim>\<open>null\<close> sets the slice to nil.
\<close>

definition Param_store :: "string \<Rightarrow> json \<Rightarrow> Param \<Rightarrow> error + Param" where
  "Param_store k v p =
     (if k = ''name'' then
        (case decode_string v (Param_Name p) of
           Inl e \<Rightarrow> Inl e | Inr s \<Rightarrow> Inr (p\<lparr>Param_Name := s\<rparr>))
      else if k = ''value'' then
        (case decode_string v (Param_Value p) of
           Inl e \<Rightarrow> Inl e | Inr s \<Rightarrow> Inr (p\<lparr>Param_Value := s\<rparr>))
      else if k = ''filename'' then
        (case decode_string v (Param_Filename p) of
           Inl e \<Rightarrow> Inl e | Inr s \<Rightarrow> Inr (p\<lparr>Param_Filename := s\<rparr>))
      else if k = ''contenttype'' then
        (case decode_string v (Param_ContentType p) of
           Inl e \<Rightarrow> Inl e | Inr s \<Rightarrow> Inr (p\<lparr>Param_ContentType := s\<rparr>))
      else Inr p)"

definition Param_zero :: Param where
  "Param_zero = \<lparr>Param_Name = [], Param_Value = [], Param_Filename = [],
                 Param_ContentType = []\<rparr>"

fun decode_Param_list :: "json list \<Rightarrow> Param list \<Rightarrow> error + Param list" where
  "decode_Param_list [] cur = Inr []"
| "decode_Param_list (j # js) cur =
     (case decode_struct Param_store j (case cur of [] \<Rightarrow> Param_zero | c # _ \<Rightarrow> c) of
        Inl e \<Rightarrow> Inl e
      | Inr p \<Rightarrow>
          (case decode_Param_list js (tl cur) of
             Inl e \<Rightarrow> Inl e
           | Inr ps \<Rightarrow> Inr (p # ps)))"

definition decode_Params :: "json \<Rightarrow> Param list \<Rightarrow> error + Param list" where
  "decode_Params v cur =
     (case v of
        JNull \<Rightarrow> Inr []
      | JArray js \<Rightarrow> decode_Param_list js cur
      | _ \<Rightarrow> Inl UnmarshalTypeError)"

text \<open>The three structs \<^verbatim>\<open>PostData.UnmarshalJSON\<close> decodes into.\<close>

definition enc_store :: "string \<Rightarrow> json \<Rightarrow> string \<Rightarrow> error + string" where
  "enc_store k v enc = (if k = ''encoding'' then decode_string v enc else Inr enc)"

definition noMethod_store :: "string \<Rightarrow> json \<Rightarrow> PostData \<Rightarrow> error + PostData" where
  "noMethod_store k v p =
     (if k = ''mimetype'' then
        (case decode_string v (PostData_MimeType p) of
           Inl e \<Rightarrow> Inl e | Inr s \<Rightarrow> Inr (p\<lparr>PostData_MimeType := s\<rparr>))
      else if k = ''params'' then
        (case decode_Params v (PostData_Params p) of
           Inl e \<Rightarrow> Inl e | Inr ps \<Rightarrow> Inr (p\<lparr>PostData_Params := ps\<rparr>))
      else if k = ''text'' then
        (case decode_string v (PostData_Text p) of
           Inl e \<Rightarrow> Inl e | Inr s \<Rightarrow> Inr (p\<lparr>PostData_Text := s\<rparr>))
      else Inr p)"

definition pdBinary_store :: "string \<Rightarrow> json \<Rightarrow> pdBinary \<Rightarrow> error + pdBinary" where
  "pdBinary_store k v pb =
     (if k = ''mimetype'' then
        (case decode_string v (pdBinary_MimeType pb) of
           Inl e \<Rightarrow> Inl e | Inr s \<Rightarrow> Inr (pb\<lparr>pdBinary_MimeType := s\<rparr>))
      else if k = ''params'' then
        (case decode_Params v (pdBinary_Params pb) of
           Inl e \<Rightarrow> Inl e | Inr ps \<Rightarrow> Inr (pb\<lparr>pdBinary_Params := ps\<rparr>))
      else if k = ''text'' then
        (case decode_bytes v (pdBinary_Text pb) of
           Inl e \<Rightarrow> Inl e | Inr bs \<Rightarrow> Inr (pb\<lparr>pdBinary_Text := bs\<rparr>))
      else if k = ''encoding'' then
        (case decode_string v (pdBinary_Encoding pb) of
           Inl e \<Rightarrow> Inl e | Inr s \<Rightarrow> Inr (pb\<lparr>pdBinary_Encoding := s\<rparr>))
      else Inr pb)"

definition pdBinary_zero :: pdBinary where
  "pdBinary_zero = \<lparr>pdBinary_MimeType = [], pdBinary_Params = [], pdBinary_Text = [],
                    pdBinary_Encoding = []\<rparr>"

text \<open>
  \<^verbatim>\<open>PostData.UnmarshalJSON(data)\<close> on the receiver \<open>p\<close>: the error, or the receiver as the call
  leaves it.
\<close>

definition PostData_UnmarshalJSON :: "json \<Rightarrow> PostData \<Rightarrow> error + PostData" where
  "PostData_UnmarshalJSON data p =
     (if data = JNull then Inr p
      else
        (case decode_struct enc_store data [] of
           Inl e \<Rightarrow> Inl e
         | Inr enc \<Rightarrow>
             if enc \<noteq> ''base64'' then decode_struct noMethod_store data p
             else
               (case decode_struct pdBinary_store data pdBinary_zero of
                  Inl e \<Rightarrow> Inl e
                | Inr pb \<Rightarrow>
                    Inr (p\<lparr>PostData_MimeType := pdBinary_MimeType pb,
                           PostData_Params := pdBinary_Params pb,
                           PostData_Text := pdBinary_Text pb\<rparr>))))"

text \<open>
  For stating what the decoders do: the \<^verbatim>\<open>encoding\<close> member and the \<^verbatim>\<open>text\<close> member of
  a serialized value, each absent or a string, and the zero value of \<^verbatim>\<open>PostData\<close>.
\<close>

definition tag_member :: "string option \<Rightarrow> (string \<times> json) list" where
  "tag_member tag = (case tag of None \<Rightarrow> [] | Some e \<Rightarrow> [(''encoding'', JString e)])"

definition text_member :: "string option \<Rightarrow> (string \<times> json) list" where
  "text_member tx = (case tx of None \<Rightarrow> [] | Some s \<Rightarrow> [(''text'', JString s)])"

definition PostData_zero :: PostData where
  "PostData_zero = \<lparr>PostData_MimeType = [], PostData_Params = [], PostData_Text = []\<rparr>"

text \<open>\<^verbatim>\<open>Content.MarshalJSON\<close>: the switch on \<^verbatim>\<open>c.Encoding\<close>, then \<^verbatim>\<open>json.Marshal(cj)\<close>.\<close>

definition contentJSON_json :: "contentJSON \<Rightarrow> json" where
  "contentJSON_json cj =
     JObject ([(''size'', JNum (contentJSON_Size cj)),
               (''mimeType'', json_str (contentJSON_MimeType cj))]
              @ omitempty ''text'' (contentJSON_Text cj)
              @ omitempty ''encoding'' (contentJSON_Encoding cj))"

definition Content_MarshalJSON :: "Content \<Rightarrow> error + json" where
  "Content_MarshalJSON c =
     (case (if Content_Encoding c = ''base64'' then Inr (EncodeToString (Content_Text c))
            else if Content_Encoding c = [] then Inr (Content_Text c)
            else Inl (UnsupportedEncoding (Content_Encoding c))) of
        Inl e \<Rightarrow> Inl e
      | Inr txt \<Rightarrow>
          Inr (contentJSON_json
                 \<lparr>contentJSON_Size = Content_Size c,
                  contentJSON_MimeType = Content_MimeType c,
                  contentJSON_Text = txt,
                  contentJSON_Encoding = Content_Encoding c\<rparr>))"

definition contentJSON_store :: "string \<Rightarrow> json \<Rightarrow> contentJSON \<Rightarrow> error + contentJSON" where
  "contentJSON_store k v cj =
     (if k = ''size'' then
        (case decode_int64 v (contentJSON_Size cj) of
           Inl e \<Rightarrow> Inl e | Inr n \<Rightarrow> Inr (cj\<lparr>contentJSON_Size := n\<rparr>))
      else if k = ''mimetype'' then
        (case decode_string v (contentJSON_MimeType cj) of
           Inl e \<Rightarrow> Inl e | Inr s \<Rightarrow> Inr (cj\<lparr>contentJSON_MimeType := s\<rparr>))
      else if k = ''text'' then
        (case decode_string v (contentJSON_Text cj) of
           Inl e \<Rightarrow> Inl e | Inr s \<Rightarrow> Inr (cj\<lparr>contentJSON_Text := s\<rparr>))
      else if k = ''encoding'' then
        (case decode_string v (contentJSON_Encoding cj) of
           Inl e \<Rightarrow> Inl e | Inr s \<Rightarrow> Inr (cj\<lparr>contentJSON_Encoding := s\<rparr>))
      else Inr cj)"

definition contentJSON_zero :: contentJSON where
  "contentJSON_zero = \<lparr>contentJSON_Size = 0, contentJSON_MimeType = [],
                       contentJSON_Text = [], contentJSON_Encoding = []\<rparr>"

text \<open>\<^verbatim>\<open>Content.UnmarshalJSON(data)\<close> on the receiver \<open>c\<close>.\<close>

definition Content_UnmarshalJSON :: "json \<Rightarrow> Content \<Rightarrow> error + Content" where
  "Content_UnmarshalJSON data c =
     (case decode_struct contentJSON_store data contentJSON_zero of
        Inl e \<Rightarrow> Inl e
      | Inr cj \<Rightarrow>
          (case (if contentJSON_Encoding cj = ''base64'' then
                   (case DecodeString (contentJSON_Text cj) of
                      Inl e \<Rightarrow> Inl (DecodeTextError e)
                    | Inr bs \<Rightarrow> Inr bs)
                 else if contentJSON_Encoding cj = [] then Inr (contentJSON_Text cj)
                 else Inl (UnsupportedEncoding (contentJSON_Encoding cj))) of
             Inl e \<Rightarrow> Inl e
           | Inr txt \<Rightarrow>
               Inr (c\<lparr>Content_Size := contentJSON_Size cj,
                      Content_MimeType := contentJSON_MimeType cj,
                      Content_Text := txt,
                      Content_Encoding := contentJSON_Encoding cj\<rparr>)))"

section \<open>Collaborators outside the capture code\<close>

text \<open>
  One part of a \<^verbatim>\<open>multipart.Reader\<close>: its form name, file name, \<^verbatim>\<open>Content-Type\<close> header
  and what \<^verbatim>\<open>ioutil.ReadAll\<close> of the part returns.
\<close>

record Part =
  Part_FormName :: string
  Part_FileName :: string
  Part_ContentType :: string
  Part_ReadAll :: "error + bytes"

text \<open>
  The library functions the capture path calls and this development does not look into
  are parameters:
  \<^item> \<^verbatim>\<open>mime.ParseMediaType\<close>, returning the media type and its parameters;
  \<^item> \<^verbatim>\<open>multipart.NewReader(br, boundary)\<close>, as the results of its successive \<^verbatim>\<open>NextPart\<close>
    calls up to the \<^verbatim>\<open>io.EOF\<close> or the first error;
  \<^item> \<^verbatim>\<open>proxyutil.RequestHeader(req).Map()\<close>;
  \<^item> \<^verbatim>\<open>time.Now().UTC()\<close> and \<^verbatim>\<open>Time.Format(time.RFC3339)\<close>;
  \<^item> \<^verbatim>\<open>json.Marshal(entry)\<close>, whose error \<^verbatim>\<open>RecordRequest\<close> handles;
  \<^item> the answer of the sink to \<^verbatim>\<open>channel.Publish\<close> (\<open>None\<close> for \<^verbatim>\<open>nil\<close>).
\<close>

record lib =
  ParseMediaType :: "string \<Rightarrow> error + string \<times> (string \<rightharpoonup> string)"
  multipart_NextParts :: "bytes \<Rightarrow> string \<Rightarrow> (error + Part) list"
  RequestHeader_Map :: "http_Request \<Rightarrow> Values"
  FormatRFC3339 :: "int \<Rightarrow> string"
  Now :: int
  json_Marshal :: "Entry \<Rightarrow> error + bytes"
  Publish_result :: "event \<Rightarrow> error option"

section \<open>Package \<^verbatim>\<open>messageview\<close>\<close>

text \<open>
  Modelled from the spec: package \<^verbatim>\<open>messageview\<close> of this repository
  (\<^verbatim>\<open>messageview.New\<close>, \<^verbatim>\<open>SnapshotRequest\<close>, \<^verbatim>\<open>BodyReader\<close>) is not among the sources.  The
  spec describes it as a non-destructive body-snapshot facility that allows reading a
  request's body without disturbing it for downstream consumers, and the comment of
  \<^verbatim>\<open>NewRequest\<close> says that \<^verbatim>\<open>req.Body\<close> is read to EOF and replaced with a copy in a
  buffer, and that an error of \<^verbatim>\<open>req.Body.Read\<close> is returned with the body left in an
  intermediate state.
\<close>

record MessageView =
  mv_body :: bytes

definition SnapshotRequest :: "http_Request \<Rightarrow> (error + MessageView) \<times> http_Request" where
  "SnapshotRequest req =
     (case ReadAll (req_Body req) of
        (Inl e, b) \<Rightarrow> (Inl e, req\<lparr>req_Body := b\<rparr>)
      | (Inr data, b) \<Rightarrow> (Inr \<lparr>mv_body = data\<rparr>, req\<lparr>req_Body := NewReader data\<rparr>))"

definition BodyReader :: "MessageView \<Rightarrow> error + Body" where
  "BodyReader mv = Inr (NewReader (mv_body mv))"

section \<open>The body materializer: \<^verbatim>\<open>postData\<close>\<close>

text \<open>
  The \<^verbatim>\<open>multipart/form-data\<close> loop: \<^verbatim>\<open>NextPart\<close> until \<^verbatim>\<open>io.EOF\<close> (the end of the list),
  returning the first error of \<^verbatim>\<open>NextPart\<close> or of reading a part.
\<close>

fun multipart_params :: "Param list \<Rightarrow> (error + Part) list \<Rightarrow> error + Param list" where
  "multipart_params ps [] = Inr ps"
| "multipart_params ps (Inl e # rest) = Inl e"
| "multipart_params ps (Inr p # rest) =
     (case Part_ReadAll p of
        Inl e \<Rightarrow> Inl e
      | Inr body \<Rightarrow>
          multipart_params
            (ps @ [\<lparr>Param_Name = Part_FormName p, Param_Value = body,
                    Param_Filename = Part_FileName p,
                    Param_ContentType = Part_ContentType p\<rparr>]) rest)"

text \<open>The \<^verbatim>\<open>application/x-www-form-urlencoded\<close> loop over the parsed form.\<close>

definition form_params :: "string list \<Rightarrow> Values \<Rightarrow> Param list" where
  "form_params ks vs =
     map (\<lambda>(n, v). \<lparr>Param_Name = n, Param_Value = v, Param_Filename = [],
                     Param_ContentType = []\<rparr>) (range_pairs ks vs)"

text \<open>
  \<^verbatim>\<open>postData(req, logBody)\<close>.  The result is the returned pair (\<open>Inl\<close> the error, \<open>Inr None\<close>
  for \<^verbatim>\<open>nil, nil\<close>), the request as the call leaves it, and the events logged.  \<open>ks\<close> is the
  order in which the runtime ranges over the parsed form.
\<close>

definition postData ::
  "lib \<Rightarrow> string list \<Rightarrow> http_Request \<Rightarrow> bool \<Rightarrow>
     (error + PostData option) \<times> http_Request \<times> event list" where
  "postData L ks req logBody =
     (if req_ContentLength req \<le> 0 \<and> length (req_TransferEncoding req) = 0
      then (Inr None, req, [])
      else
        let ct = Header_Get (req_Header req) ''Content-Type'';
            (mt, ps, evs) =
              (case ParseMediaType L ct of
                 Inl e \<Rightarrow>
                   (ct, Map.empty,
                    [Log ErrorLevel [] ''har: cannot parse Content-Type header ''])
               | Inr (mt, ps) \<Rightarrow> (mt, ps, []));
            pd = \<lparr>PostData_MimeType = mt, PostData_Params = [], PostData_Text = []\<rparr>
        in if \<not> logBody then (Inr (Some pd), req, evs)
           else
             (case SnapshotRequest req of
                (Inl e, req') \<Rightarrow> (Inl e, req', evs)
              | (Inr mv, req') \<Rightarrow>
                  (case BodyReader mv of
                     Inl e \<Rightarrow> (Inl e, req', evs)
                   | Inr br \<Rightarrow>
                       if mt = ''multipart/form-data'' then
                         (case multipart_params (PostData_Params pd)
                                 (multipart_NextParts L (pending br)
                                    (case ps ''boundary'' of None \<Rightarrow> [] | Some b \<Rightarrow> b)) of
                            Inl e \<Rightarrow> (Inl e, req', evs)
                          | Inr params \<Rightarrow>
                              (Inr (Some (pd\<lparr>PostData_Params := params\<rparr>)), req', evs))
                       else if mt = ''application/x-www-form-urlencoded'' then
                         (case fst (ReadAll br) of
                            Inl e \<Rightarrow> (Inl e, req', evs)
                          | Inr body \<Rightarrow>
                              (case ParseQuery body of
                                 (vs, Some e) \<Rightarrow> (Inl e, req', evs)
                               | (vs, None) \<Rightarrow>
                                   (Inr (Some (pd\<lparr>PostData_Params :=
                                        PostData_Params pd @ form_params ks vs\<rparr>)),
                                    req', evs)))
                       else
                         (case fst (ReadAll br) of
                            Inl e \<Rightarrow> (Inl e, req', evs)
                          | Inr body \<Rightarrow>
                              (Inr (Some (pd\<lparr>PostData_Text := body\<rparr>)), req', evs)))))"

section \<open>The orchestrator: \<^verbatim>\<open>NewRequest\<close>, \<^verbatim>\<open>RecordRequest\<close>, \<^verbatim>\<open>ModifyRequest\<close>\<close>

definition cookies :: "lib \<Rightarrow> http_Cookie list \<Rightarrow> Cookie list" where
  "cookies L cs =
     map (\<lambda>c. \<lparr>Cookie_Name = http_Cookie_Name c,
                Cookie_Value = http_Cookie_Value c,
                Cookie_Path = http_Cookie_Path c,
                Cookie_Domain = http_Cookie_Domain c,
                Cookie_Expires = http_Cookie_Expires c,
                Cookie_Expires8601 =
                  (case http_Cookie_Expires c of
                     None \<Rightarrow> []
                   | Some t \<Rightarrow> FormatRFC3339 L t),
                Cookie_HTTPOnly = http_Cookie_HttpOnly c,
                Cookie_Secure = http_Cookie_Secure c\<rparr>) cs"

text \<open>\<^verbatim>\<open>headers(hs)\<close>; \<open>ks\<close> is the order in which the runtime ranges over \<open>hs\<close>.\<close>

definition headers :: "string list \<Rightarrow> Values \<Rightarrow> Header list" where
  "headers ks hs =
     map (\<lambda>(n, v). \<lparr>Header_Name = n, Header_Value = v\<rparr>) (range_pairs ks hs)"

text \<open>The orders the runtime chooses for the three map loops of one \<^verbatim>\<open>NewRequest\<close> call.\<close>

record orders =
  header_order :: "string list"
  query_order :: "string list"
  form_order :: "string list"

text \<open>
  \<^verbatim>\<open>NewRequest(req, withBody)\<close>.  \<^verbatim>\<open>req.URL.Query()\<close> is \<^verbatim>\<open>ParseQuery\<close> of the raw query
  with the error dropped.
\<close>

definition NewRequest ::
  "lib \<Rightarrow> orders \<Rightarrow> http_Request \<Rightarrow> bool \<Rightarrow>
     (error + Request) \<times> http_Request \<times> event list" where
  "NewRequest L ro req withBody =
     (let r = \<lparr>Request_Method = req_Method req,
                Request_URL = req_URL req,
                Request_HTTPVersion = req_Proto req,
                Request_Cookies = cookies L (req_Cookies req),
                Request_Headers = headers (header_order ro) (RequestHeader_Map L req),
                Request_QueryString = [],
                Request_PostData = None,
                Request_HeadersSize = - 1,
                Request_BodySize = req_ContentLength req\<rparr>;
          r = r\<lparr>Request_QueryString := Request_QueryString r @
                 map (\<lambda>(n, v). \<lparr>QueryString_Name = n, QueryString_Value = v\<rparr>)
                   (range_pairs (query_order ro) (fst (ParseQuery (req_RawQuery req))))\<rparr>
      in case postData L (form_order ro) req withBody of
           (Inl err, req', evs) \<Rightarrow> (Inl err, req', evs)
         | (Inr pd, req', evs) \<Rightarrow> (Inr (r\<lparr>Request_PostData := pd\<rparr>), req', evs))"

text \<open>
  The logger.  \<^verbatim>\<open>mu\<close> is a mutex and has no state in a sequential run; \<^verbatim>\<open>channel\<close> is
  the sink, whose answer to a \<^verbatim>\<open>Publish\<close> call is \<open>Publish_result\<close> of \<open>lib\<close>; of \<^verbatim>\<open>queue\<close> the
  code reads the name.
\<close>

typedecl http_Response

record Logger =
  bodyLogging :: "http_Response \<Rightarrow> bool"
  postDataLogging :: "http_Request \<Rightarrow> bool"
  creator :: Creator
  entries :: "string \<rightharpoonup> Entry"
  tail :: "string option"
  queue_Name :: string

definition PostDataLogging :: "bool \<Rightarrow> Logger \<Rightarrow> Logger" where
  "PostDataLogging enabled l = l\<lparr>postDataLogging := (\<lambda>_. enabled)\<rparr>"

definition BodyLogging :: "bool \<Rightarrow> Logger \<Rightarrow> Logger" where
  "BodyLogging enabled l = l\<lparr>bodyLogging := (\<lambda>_. enabled)\<rparr>"

definition SetOption :: "Logger \<Rightarrow> (Logger \<Rightarrow> Logger) list \<Rightarrow> Logger" where
  "SetOption l opts = fold (\<lambda>opt l. opt l) opts l"

definition NewLogger :: "string \<Rightarrow> Logger" where
  "NewLogger queue =
     (let l = \<lparr>bodyLogging = (\<lambda>_. False), postDataLogging = (\<lambda>_. False),
                creator = \<lparr>Creator_Name = ''martian proxy'', Creator_Version = ''2.0.0''\<rparr>,
                entries = Map.empty, tail = None, queue_Name = queue\<rparr>;
          l = SetOption l [BodyLogging True];
          l = SetOption l [PostDataLogging True]
      in l)"

text \<open>The three \<^verbatim>\<open>Str\<close> fields every event of \<^verbatim>\<open>RecordRequest\<close> carries.\<close>

definition log_fields :: "string \<Rightarrow> http_Request \<Rightarrow> (string \<times> string) list" where
  "log_fields cid req =
     [(''context-id'', cid),
      (''origin-ip'', Header_Get (req_Header req) ''X-Forwarded-For''),
      (''host'', req_Host req)]"

text \<open>
  \<^verbatim>\<open>RecordRequest(id, req)\<close> (\<open>cid\<close> is the ID): the returned error (\<open>None\<close> for \<^verbatim>\<open>nil\<close>), the logger and the
  request as the call leaves them, and the events in the order they happen.
\<close>

definition RecordRequest ::
  "lib \<Rightarrow> orders \<Rightarrow> Logger \<Rightarrow> string \<Rightarrow> http_Request \<Rightarrow>
     error option \<times> Logger \<times> http_Request \<times> event list" where
  "RecordRequest L ro l cid req =
     (case NewRequest L ro req (postDataLogging l req) of
        (Inl err, req', evs) \<Rightarrow> (Some err, l, req', evs)
      | (Inr hreq, req', evs) \<Rightarrow>
          (let entry = \<lparr>Entry_ID = cid,
                        Entry_StartedDateTime = Now L,
                        Entry_Time = 0,
                        Entry_Request = hreq,
                        Entry_Host = req_Host req',
                        Entry_Response = None,
                        Entry_Cache = (),
                        Entry_Timings = \<lparr>Timings_Send = 0, Timings_Wait = 0,
                                          Timings_Receive = 0\<rparr>,
                        Entry_next = None\<rparr>;
               (body, evs1) =
                 (case json_Marshal L entry of
                    Inl err \<Rightarrow>
                      ([], [Log ErrorLevel (log_fields cid req') ''Error serializing request''])
                  | Inr body \<Rightarrow> (body, []));
               publishing = Publish [] (queue_Name l) False False ''application/json'' body
           in case Publish_result L publishing of
                Some err \<Rightarrow>
                  (None, l, req',
                   evs @ evs1 @
                   [publishing,
                    Log ErrorLevel (log_fields cid req') ''Error publishing request.''])
              | None \<Rightarrow>
                  (None, l, req',
                   evs @ evs1 @
                   [publishing, Log InfoLevel (log_fields cid req') ''Enqueued request.''])))"

definition ModifyRequest ::
  "lib \<Rightarrow> orders \<Rightarrow> Logger \<Rightarrow> http_Request \<Rightarrow>
     error option \<times> Logger \<times> http_Request \<times> event list" where
  "ModifyRequest L ro l req =
     (let ctx = req_Context req
      in if ctx_SkippingLogging ctx then (None, l, req, [])
         else (let cid = ctx_ID ctx in RecordRequest L ro l cid req))"

section \<open>The mapping-registration handler\<close>

text \<open>\<^verbatim>\<open>mgm.DefaultModel\<close> gives a mapping its ID and its two dates.\<close>

record mapping =
  mapping_ID :: string
  mapping_CreatedAt :: int
  mapping_UpdatedAt :: int
  mapping_IPAddress :: string
  mapping_Package :: string
  mapping_Platform :: string

record responseBody =
  responseBody_Success :: bool
  responseBody_Message :: string

text \<open>
  What the handler does to the outside, in the order it does it: calls of the response
  writer, of the martian log (the text of the format up to its first verb) and of the
  collection.
\<close>

datatype call =
    Header_Add string string
  | Header_Set string string
  | WriteHeader nat
  | http_Error error nat
  | Encode_responseBody responseBody
  | Encode_mapping mapping
  | Errorf string
  | Infof string
  | Coll_Delete mapping
  | Coll_Create mapping

text \<open>
  The collaborators of the handler, over a store of type \<open>'db\<close>: the JSON decoder run on
  the request body, and \<^verbatim>\<open>Delete\<close> and \<^verbatim>\<open>Create\<close> of the \<^verbatim>\<open>mgm\<close> collection.  \<^verbatim>\<open>Create\<close> fills
  in the model it is given; a successful call answers with the model as it leaves it.
\<close>

record 'db mgm =
  Decode :: "bytes \<Rightarrow> error + mapping"
  Delete :: "mapping \<Rightarrow> 'db \<Rightarrow> error option \<times> 'db"
  Create :: "mapping \<Rightarrow> 'db \<Rightarrow> (error + mapping) \<times> 'db"

definition exportHandler_ServeHTTP ::
  "'db mgm \<Rightarrow> 'db \<Rightarrow> string \<Rightarrow> bytes \<Rightarrow> call list \<times> 'db" where
  "exportHandler_ServeHTTP M db method body =
     (if method \<noteq> ''POST'' \<and> method \<noteq> ''DELETE'' then
        ([Header_Add ''Allow'' ''POST,DELETE'',
          WriteHeader 405,
          Errorf ''db.ServeHTTP: method not allowed: '',
          Encode_responseBody \<lparr>responseBody_Success = False,
                               responseBody_Message = ''Method not allowed''\<rparr>], db)
      else
        (case Decode M body of
           Inl err \<Rightarrow>
             ([http_Error err 400,
               Encode_responseBody \<lparr>responseBody_Success = False,
                                    responseBody_Message = ''Payload could not be parsed''\<rparr>],
              db)
         | Inr m \<Rightarrow>
             if mapping_IPAddress m = [] \<or> mapping_Package m = [] \<or> mapping_Platform m = []
             then
               ([WriteHeader 400,
                 Errorf ''db.ServeHTTP: IP address, package and platform are required for a mapping'',
                 Encode_responseBody
                   \<lparr>responseBody_Success = False,
                    responseBody_Message =
                      ''IP address, package and platform are required for a mapping''\<rparr>], db)
             else
               (case (if method = ''DELETE'' then
                        (case Delete M m db of
                           (Some err, db1) \<Rightarrow>
                             Inl ([Coll_Delete m,
                                   http_Error err 500,
                                   Encode_responseBody
                                     \<lparr>responseBody_Success = False,
                                      responseBody_Message = ''Error deleting mapping''\<rparr>], db1)
                         | (None, db1) \<Rightarrow> Inr ([Coll_Delete m], db1))
                      else Inr ([], db)) of
                  Inl returned \<Rightarrow> returned
                | Inr (calls, db1) \<Rightarrow>
                    (case Create M m db1 of
                       (Inl err, db2) \<Rightarrow>
                         (calls @
                          [Infof ''mappingHandler.ServeHTTP: adding mapping for IP address '',
                           Header_Set ''Content-Type'' ''application/json; charset=utf-8'',
                           Coll_Create m,
                           WriteHeader 500,
                           Errorf ''db.ServeHTTP: error '',
                           Encode_responseBody
                             \<lparr>responseBody_Success = False,
                              responseBody_Message = ''error writing to database''\<rparr>], db2)
                     | (Inr m', db2) \<Rightarrow>
                         (calls @
                          [Infof ''mappingHandler.ServeHTTP: adding mapping for IP address '',
                           Header_Set ''Content-Type'' ''application/json; charset=utf-8'',
                           Coll_Create m,
                           Encode_mapping m'], db2)))))"

section \<open>Example inputs\<close>

text \<open>
  The answers of the collaborators on the example requests below.  Their
  \<^verbatim>\<open>Content-Type\<close> headers are bare lower-case media types, which \<^verbatim>\<open>mime.ParseMediaType\<close>
  returns as they are, with no parameters; an empty header is an error.  None of the
  requests is multipart or carries a cookie.  The header map is taken from the request as
  it stands.  The encoder and the sink answer what the example says.
\<close>

definition example_lib :: "(error + bytes) \<Rightarrow> error option \<Rightarrow> lib" where
  "example_lib marshalled published =
     \<lparr>ParseMediaType = (\<lambda>ct. if ct = [] then Inl MediaTypeError else Inr (ct, Map.empty)),
      multipart_NextParts = (\<lambda>body boundary. []),
      RequestHeader_Map = req_Header,
      FormatRFC3339 = (\<lambda>t. []),
      Now = 0,
      json_Marshal = (\<lambda>entry. marshalled),
      Publish_result = (\<lambda>publishing. published)\<rparr>"

definition example_orders :: "string list \<Rightarrow> orders" where
  "example_orders ks =
     \<lparr>header_order = [''Content-Type''], query_order = [], form_order = ks\<rparr>"

text \<open>A \<^verbatim>\<open>POST\<close> of a URL-encoded form with the given body.\<close>

definition form_request :: "bytes \<Rightarrow> http_Request" where
  "form_request body =
     \<lparr>req_Method = ''POST'',
      req_URL = ''http://example.com/submit'',
      req_RawQuery = [],
      req_Proto = ''HTTP/1.1'',
      req_Host = ''example.com'',
      req_ContentLength = int (length body),
      req_TransferEncoding = [],
      req_Header = [''Content-Type'' \<mapsto> [''application/x-www-form-urlencoded'']],
      req_Cookies = [],
      req_Body = NewReader body,
      req_Context = \<lparr>ctx_ID = ''ctx-1'', ctx_SkippingLogging = False\<rparr>\<rparr>"

text \<open>A \<^verbatim>\<open>GET\<close> with \<^verbatim>\<open>Content-Length: 0\<close> and no transfer encoding.\<close>

definition get_request :: http_Request where
  "get_request =
     \<lparr>req_Method = ''GET'',
      req_URL = ''http://example.com/'',
      req_RawQuery = [],
      req_Proto = ''HTTP/1.1'',
      req_Host = ''example.com'',
      req_ContentLength = 0,
      req_TransferEncoding = [],
      req_Header = Map.empty,
      req_Cookies = [],
      req_Body = NewReader [],
      req_Context = \<lparr>ctx_ID = ''ctx-0'', ctx_SkippingLogging = False\<rparr>\<rparr>"

text \<open>A \<^verbatim>\<open>GET\<close> with a query, no body and no header.\<close>

definition query_request :: http_Request where
  "query_request =
     \<lparr>req_Method = ''GET'',
      req_URL = ''http://example.com/find?x=1&y=2&x=3'',
      req_RawQuery = ''x=1&y=2&x=3'',
      req_Proto = ''HTTP/1.1'',
      req_Host = ''example.com'',
      req_ContentLength = 0,
      req_TransferEncoding = [],
      req_Header = Map.empty,
      req_Cookies = [],
      req_Body = NewReader [],
      req_Context = \<lparr>ctx_ID = ''ctx-2'', ctx_SkippingLogging = False\<rparr>\<rparr>"

text \<open>
  A collection held as the list of its mappings.  The decoder answers with the mapping of
  the example payload; \<^verbatim>\<open>Delete\<close> removes the mapping with the ID of its argument and
  succeeds; \<^verbatim>\<open>Create\<close> stores the mapping under a new ID, or fails and stores nothing.
\<close>

definition example_mapping :: mapping where
  "example_mapping =
     \<lparr>mapping_ID = [], mapping_CreatedAt = 0, mapping_UpdatedAt = 0,
      mapping_IPAddress = ''10.0.0.7'', mapping_Package = ''com.example.app'',
      mapping_Platform = ''android''\<rparr>"

definition example_mgm :: "bool \<Rightarrow> mapping list mgm" where
  "example_mgm creating =
     \<lparr>Decode = (\<lambda>body. Inr example_mapping),
      Delete = (\<lambda>m db. (None, filter (\<lambda>x. mapping_ID x \<noteq> mapping_ID m) db)),
      Create = (\<lambda>m db.
        if creating
        then (Inr (m\<lparr>mapping_ID := ''id-1'', mapping_CreatedAt := 1, mapping_UpdatedAt := 1\<rparr>),
              db @ [m\<lparr>mapping_ID := ''id-1'', mapping_CreatedAt := 1,
                     mapping_UpdatedAt := 1\<rparr>])
        else (Inl StorageError, db))\<rparr>"

section \<open>Evaluating the examples\<close>

lemmas example_defs = example_lib_def example_orders_def form_request_def get_request_def
  NewReader_def NewLogger_def SetOption_def BodyLogging_def PostDataLogging_def

lemmas capture_defs = postData_def NewRequest_def RecordRequest_def ModifyRequest_def
  Header_Get_def SnapshotRequest_def ReadAll_def BodyReader_def form_params_def
  range_pairs_def headers_def cookies_def log_fields_def Let_def

lemmas query_defs = ParseQuery_def parse_setting_def Values_append_def ishex_def unhex_def

lemma ParseQuery_a1: "ParseQuery ''a=1'' = ([''a'' \<mapsto> [''1'']], None)"
  by (simp add: query_defs)

lemma ParseQuery_a1a2b3:
  "ParseQuery ''a=1&a=2&b=3'' = ([''a'' \<mapsto> [''1'', ''2''], ''b'' \<mapsto> [''3'']], None)"
  by (simp add: query_defs)

lemma ParseQuery_bad_escape:
  "ParseQuery ''a=%zz'' = (Map.empty, Some (EscapeError ''%zz''))"
  by (simp add: query_defs)

section \<open>Properties of the body materializer\<close>

text \<open>
  C5.  A request whose content length is at most zero and that has no transfer encoding
  gets no PostData (\<^verbatim>\<open>nil\<close> with no error), whatever the capture policy says; the request
  is not touched and nothing is logged.
\<close>

theorem postData_no_body:
  "req_ContentLength req \<le> 0 \<Longrightarrow> req_TransferEncoding req = [] \<Longrightarrow>
   postData L ks req logBody = (Inr None, req, [])"
  by (simp add: postData_def)

theorem postData_no_body_witness:
  "req_ContentLength get_request \<le> 0 \<and> req_TransferEncoding get_request = [] \<and>
   postData (example_lib (Inr []) None) [] get_request True = (Inr None, get_request, [])"
  using postData_no_body [of get_request "example_lib (Inr []) None" "[]" True]
  by (simp add: get_request_def)

lemma SnapshotRequest_Inr:
  "SnapshotRequest req = (Inr mv, req') \<Longrightarrow>
   req' = req \<and> mv_body mv = pending (req_Body req) \<and> \<not> fault (req_Body req)"
  by (auto simp: SnapshotRequest_def ReadAll_def NewReader_def split: if_splits)

lemma postData_Inr_request:
  "postData L ks req logBody = (Inr pd, req', evs) \<Longrightarrow> req' = req"
  by (auto simp: postData_def Let_def BodyReader_def
           split: if_splits sum.splits prod.splits option.splits
           dest: SnapshotRequest_Inr)

text \<open>
  C1.  When \<^verbatim>\<open>postData\<close> is told to capture and returns without an error, it leaves the
  request as it found it: a consumer that reads the body afterwards gets what it would
  have got before the call.  Where a snapshot was taken (the request reports a content
  length or a transfer encoding), that is the whole body, delivered without a read error.
\<close>

theorem postData_body_preserved:
  assumes "postData L ks req True = (Inr pd, req', evs)"
  shows "req' = req \<and>
         ReadAll (req_Body req') = ReadAll (req_Body req) \<and>
         (0 < req_ContentLength req \<or> req_TransferEncoding req \<noteq> [] \<longrightarrow>
            fst (ReadAll (req_Body req')) = Inr (pending (req_Body req)))"
proof -
  have same: "req' = req"
    using assms by (rule postData_Inr_request)
  have "fst (ReadAll (req_Body req)) = Inr (pending (req_Body req))"
    if "0 < req_ContentLength req \<or> req_TransferEncoding req \<noteq> []"
    using assms that
    by (auto simp: postData_def Let_def BodyReader_def ReadAll_def
             split: if_splits sum.splits prod.splits option.splits
             dest: SnapshotRequest_Inr)
  with same show ?thesis by simp
qed

theorem postData_body_preserved_witness:
  "postData (example_lib (Inr []) None) [''a''] (form_request ''a=1'') True =
     (Inr (Some \<lparr>PostData_MimeType = ''application/x-www-form-urlencoded'',
                 PostData_Params =
                   [\<lparr>Param_Name = ''a'', Param_Value = ''1'', Param_Filename = [],
                     Param_ContentType = []\<rparr>],
                 PostData_Text = []\<rparr>),
      form_request ''a=1'', []) \<and>
   fst (ReadAll (req_Body (form_request ''a=1''))) = Inr ''a=1''"
proof -
  have run:
    "postData (example_lib (Inr []) None) [''a''] (form_request ''a=1'') True =
       (Inr (Some \<lparr>PostData_MimeType = ''application/x-www-form-urlencoded'',
                   PostData_Params =
                     [\<lparr>Param_Name = ''a'', Param_Value = ''1'', Param_Filename = [],
                       Param_ContentType = []\<rparr>],
                   PostData_Text = []\<rparr>),
        form_request ''a=1'', [])"
    by (simp add: example_defs capture_defs ParseQuery_a1)
  from postData_body_preserved [OF run] run show ?thesis
    by (simp add: form_request_def NewReader_def)
qed

section \<open>Properties of the orchestrator\<close>

lemma cookies_lib:
  "cookies (L\<lparr>json_Marshal := m, Publish_result := p\<rparr>) cs = cookies L cs"
  by (simp add: cookies_def cong: option.case_cong)

lemma postData_lib:
  "postData (L\<lparr>json_Marshal := m, Publish_result := p\<rparr>) ks req b = postData L ks req b"
  by (simp add: postData_def cong: sum.case_cong prod.case_cong option.case_cong if_cong)

lemma NewRequest_lib:
  "NewRequest (L\<lparr>json_Marshal := m, Publish_result := p\<rparr>) ro req b = NewRequest L ro req b"
  by (simp add: NewRequest_def postData_lib cookies_lib)

text \<open>
  The branch of \<^verbatim>\<open>RecordRequest\<close> for an error of the encoder, as it is written (the
  branch C7 is about): the error event is logged with the correlation ID, the origin and
  the host, and then the code goes on to call \<^verbatim>\<open>Publish\<close> with an empty body and logs the
  request as enqueued.  The example takes the error from the parameter: no entry that
  \<^verbatim>\<open>RecordRequest\<close> builds makes \<^verbatim>\<open>json.Marshal\<close> fail.
\<close>

lemma RecordRequest_publishes_after_Marshal_error:
  "RecordRequest (example_lib (Inl MarshalError) None) (example_orders [''a''])
     (NewLogger ''requests'') ''ctx-1'' (form_request ''a=1'') =
   (None, NewLogger ''requests'', form_request ''a=1'',
    [Log ErrorLevel
       [(''context-id'', ''ctx-1''), (''origin-ip'', []), (''host'', ''example.com'')]
       ''Error serializing request'',
     Publish [] ''requests'' False False ''application/json'' [],
     Log InfoLevel
       [(''context-id'', ''ctx-1''), (''origin-ip'', []), (''host'', ''example.com'')]
       ''Enqueued request.''])"
  by (simp add: example_defs capture_defs ParseQuery_a1)

text \<open>
  C8, as the code has it.  \<^verbatim>\<open>RecordRequest\<close> and \<^verbatim>\<open>ModifyRequest\<close> return the logger as
  they found it: the entry is neither stored in \<^verbatim>\<open>entries\<close> nor chained behind \<^verbatim>\<open>tail\<close>.
  What happens to the entry instead: when \<^verbatim>\<open>NewRequest\<close> succeeds, the entry built from the
  correlation ID, the captured request and the host is given to the encoder, and when
  the encoder succeeds its bytes are the body of the one \<^verbatim>\<open>Publish\<close> call, which is followed
  by the event that tells how the sink answered; \<^verbatim>\<open>RecordRequest\<close> returns \<^verbatim>\<open>nil\<close>.
\<close>

theorem RecordRequest_publishes_and_keeps_logger:
  "fst (snd (RecordRequest L ro l cid req)) = l \<and>
   fst (snd (ModifyRequest L ro l req)) = l \<and>
   (\<forall>hreq req' evs body.
      NewRequest L ro req (postDataLogging l req) = (Inr hreq, req', evs) \<and>
      json_Marshal L
        \<lparr>Entry_ID = cid, Entry_StartedDateTime = Now L, Entry_Time = 0,
         Entry_Request = hreq, Entry_Host = req_Host req', Entry_Response = None,
         Entry_Cache = (),
         Entry_Timings = \<lparr>Timings_Send = 0, Timings_Wait = 0, Timings_Receive = 0\<rparr>,
         Entry_next = None\<rparr> = Inr body \<longrightarrow>
      RecordRequest L ro l cid req =
        (None, l, req',
         evs @
         [Publish [] (queue_Name l) False False ''application/json'' body,
          (case Publish_result L
                  (Publish [] (queue_Name l) False False ''application/json'' body) of
             None \<Rightarrow> Log InfoLevel (log_fields cid req') ''Enqueued request.''
           | Some err \<Rightarrow> Log ErrorLevel (log_fields cid req') ''Error publishing request.'')]))"
proof (intro conjI allI impI)
  show "fst (snd (RecordRequest L ro l cid req)) = l"
    by (simp add: RecordRequest_def Let_def split: prod.splits sum.splits option.splits)
  show "fst (snd (ModifyRequest L ro l req)) = l"
    by (simp add: ModifyRequest_def RecordRequest_def Let_def
             split: prod.splits sum.splits option.splits)
next
  fix hreq req' evs body
  assume "NewRequest L ro req (postDataLogging l req) = (Inr hreq, req', evs) \<and>
      json_Marshal L
        \<lparr>Entry_ID = cid, Entry_StartedDateTime = Now L, Entry_Time = 0,
         Entry_Request = hreq, Entry_Host = req_Host req', Entry_Response = None,
         Entry_Cache = (),
         Entry_Timings = \<lparr>Timings_Send = 0, Timings_Wait = 0, Timings_Receive = 0\<rparr>,
         Entry_next = None\<rparr> = Inr body"
  then show "RecordRequest L ro l cid req =
        (None, l, req',
         evs @
         [Publish [] (queue_Name l) False False ''application/json'' body,
          (case Publish_result L
                  (Publish [] (queue_Name l) False False ''application/json'' body) of
             None \<Rightarrow> Log InfoLevel (log_fields cid req') ''Enqueued request.''
           | Some err \<Rightarrow> Log ErrorLevel (log_fields cid req') ''Error publishing request.'')])"
    by (simp add: RecordRequest_def Let_def split: option.splits)
qed

lemma NewRequest_form_a1:
  "NewRequest (example_lib marshalled published) (example_orders [''a''])
     (form_request ''a=1'') True =
   (Inr \<lparr>Request_Method = ''POST'', Request_URL = ''http://example.com/submit'',
         Request_HTTPVersion = ''HTTP/1.1'', Request_Cookies = [],
         Request_Headers =
           [\<lparr>Header_Name = ''Content-Type'',
             Header_Value = ''application/x-www-form-urlencoded''\<rparr>],
         Request_QueryString = [],
         Request_PostData =
           Some \<lparr>PostData_MimeType = ''application/x-www-form-urlencoded'',
                 PostData_Params =
                   [\<lparr>Param_Name = ''a'', Param_Value = ''1'', Param_Filename = [],
                     Param_ContentType = []\<rparr>],
                 PostData_Text = []\<rparr>,
         Request_HeadersSize = - 1, Request_BodySize = 3\<rparr>,
    form_request ''a=1'', [])"
  by (simp add: example_defs capture_defs ParseQuery_a1)

theorem RecordRequest_publishes_and_keeps_logger_witness:
  "RecordRequest (example_lib (Inr ''{}'') None) (example_orders [''a''])
     (NewLogger ''requests'') ''ctx-1'' (form_request ''a=1'') =
   (None, NewLogger ''requests'', form_request ''a=1'',
    [Publish [] ''requests'' False False ''application/json'' ''{}'',
     Log InfoLevel
       [(''context-id'', ''ctx-1''), (''origin-ip'', []), (''host'', ''example.com'')]
       ''Enqueued request.''])"
proof -
  note inst = RecordRequest_publishes_and_keeps_logger
    [of "example_lib (Inr ''{}'') None" "example_orders [''a'']" "NewLogger ''requests''"
        "''ctx-1''" "form_request ''a=1''",
     THEN conjunct2, THEN conjunct2, rule_format, OF conjI]
  have pol: "postDataLogging (NewLogger ''requests'') (form_request ''a=1'') = True"
    by (simp add: example_defs)
  have nr: "NewRequest (example_lib (Inr ''{}'') None) (example_orders [''a''])
     (form_request ''a=1'')
     (postDataLogging (NewLogger ''requests'') (form_request ''a=1'')) = 
   (Inr \<lparr>Request_Method = ''POST'', Request_URL = ''http://example.com/submit'',
         Request_HTTPVersion = ''HTTP/1.1'', Request_Cookies = [],
         Request_Headers =
           [\<lparr>Header_Name = ''Content-Type'',
             Header_Value = ''application/x-www-form-urlencoded''\<rparr>],
         Request_QueryString = [],
         Request_PostData =
           Some \<lparr>PostData_MimeType = ''application/x-www-form-urlencoded'',
                 PostData_Params =
                   [\<lparr>Param_Name = ''a'', Param_Value = ''1'', Param_Filename = [],
                     Param_ContentType = []\<rparr>],
                 PostData_Text = []\<rparr>,
         Request_HeadersSize = - 1, Request_BodySize = 3\<rparr>,
    form_request ''a=1'', [])"
    unfolding pol by (rule NewRequest_form_a1)
  have ms: "json_Marshal (example_lib (Inr ''{}'') None) e = Inr ''{}''" for e
    by (simp add: example_lib_def)
  from inst [OF nr ms] show ?thesis
    by (simp add: example_defs log_fields_def Header_Get_def)
qed

text \<open>
  C8 as stated fails: after a request that is observed, not excluded and recorded without
  an error, the correlation map has no entry under the request's ID and \<^verbatim>\<open>tail\<close> is nil.
\<close>

theorem RecordRequest_retains_no_entry:
  "\<not> ctx_SkippingLogging (req_Context (form_request ''a=1'')) \<and>
   fst (ModifyRequest (example_lib (Inr ''{}'') None) (example_orders [''a''])
          (NewLogger ''requests'') (form_request ''a=1'')) = None \<and>
   entries (fst (snd (ModifyRequest (example_lib (Inr ''{}'') None) (example_orders [''a''])
          (NewLogger ''requests'') (form_request ''a=1''))))
     (ctx_ID (req_Context (form_request ''a=1''))) = None \<and>
   tail (fst (snd (ModifyRequest (example_lib (Inr ''{}'') None) (example_orders [''a''])
          (NewLogger ''requests'') (form_request ''a=1'')))) = None"
  by (simp add: example_defs capture_defs ParseQuery_a1)

text \<open>
  C9, as the code has it.  What \<^verbatim>\<open>ModifyRequest\<close> returns does not depend on the encoder
  or on the sink: it is \<^verbatim>\<open>nil\<close> for an excluded request, and otherwise the error of
  \<^verbatim>\<open>NewRequest\<close> (a failed read of the body, a multipart or a form that does not parse),
  or \<^verbatim>\<open>nil\<close> when \<^verbatim>\<open>NewRequest\<close> succeeds.
\<close>

theorem ModifyRequest_error:
  "fst (ModifyRequest (L\<lparr>json_Marshal := marshal, Publish_result := publish\<rparr>) ro l req) =
     (if ctx_SkippingLogging (req_Context req) then None
      else case fst (NewRequest L ro req (postDataLogging l req)) of
             Inl err \<Rightarrow> Some err
           | Inr hreq \<Rightarrow> None)"
  by (simp add: ModifyRequest_def RecordRequest_def NewRequest_lib Let_def
           split: prod.splits sum.splits option.splits)

text \<open>
  C9 as stated fails: a form body with a malformed escape makes \<^verbatim>\<open>ModifyRequest\<close> return
  the error of \<^verbatim>\<open>url.ParseQuery\<close> to the proxy.
\<close>

theorem ModifyRequest_returns_decode_error:
  "fst (ModifyRequest (example_lib (Inr ''{}'') None) (example_orders [])
          (NewLogger ''requests'') (form_request ''a=%zz'')) = Some (EscapeError ''%zz'')"
  by (simp add: example_defs capture_defs ParseQuery_bad_escape)

section \<open>Properties of the mapping-registration handler\<close>

text \<open>
  C10, as the code has it.  A \<^verbatim>\<open>DELETE\<close> whose payload parses and names an IP address, a
  package and a platform, and whose \<^verbatim>\<open>Delete\<close> succeeds, goes on to call \<^verbatim>\<open>Create\<close> with
  the mapping of the same payload on the store \<^verbatim>\<open>Delete\<close> left.  When \<^verbatim>\<open>Create\<close> succeeds
  the created record is what the handler writes; when it fails the handler answers 500
  with an error body.  Either way \<^verbatim>\<open>Create\<close> is the last call on the collection, and the
  store is as \<^verbatim>\<open>Create\<close> left it.
\<close>

theorem DELETE_then_Create:
  assumes "Decode M body = Inr m"
    and "mapping_IPAddress m \<noteq> []" and "mapping_Package m \<noteq> []"
    and "mapping_Platform m \<noteq> []"
    and "Delete M m db = (None, db1)"
  shows "exportHandler_ServeHTTP M db ''DELETE'' body =
     (case Create M m db1 of
        (Inr m', db2) \<Rightarrow>
          ([Coll_Delete m,
            Infof ''mappingHandler.ServeHTTP: adding mapping for IP address '',
            Header_Set ''Content-Type'' ''application/json; charset=utf-8'',
            Coll_Create m,
            Encode_mapping m'], db2)
      | (Inl err, db2) \<Rightarrow>
          ([Coll_Delete m,
            Infof ''mappingHandler.ServeHTTP: adding mapping for IP address '',
            Header_Set ''Content-Type'' ''application/json; charset=utf-8'',
            Coll_Create m,
            WriteHeader 500,
            Errorf ''db.ServeHTTP: error '',
            Encode_responseBody \<lparr>responseBody_Success = False,
                                 responseBody_Message = ''error writing to database''\<rparr>],
           db2))"
  using assms
  by (simp add: exportHandler_ServeHTTP_def split: prod.splits sum.splits)

theorem DELETE_then_Create_witness:
  "exportHandler_ServeHTTP (example_mgm True) [] ''DELETE'' ''payload'' =
     ([Coll_Delete example_mapping,
       Infof ''mappingHandler.ServeHTTP: adding mapping for IP address '',
       Header_Set ''Content-Type'' ''application/json; charset=utf-8'',
       Coll_Create example_mapping,
       Encode_mapping
         (example_mapping\<lparr>mapping_ID := ''id-1'', mapping_CreatedAt := 1,
                           mapping_UpdatedAt := 1\<rparr>)],
      [example_mapping\<lparr>mapping_ID := ''id-1'', mapping_CreatedAt := 1,
                        mapping_UpdatedAt := 1\<rparr>])"
  using DELETE_then_Create [of "example_mgm True" "''payload''" example_mapping "[]" "[]"]
  by (simp add: example_mgm_def example_mapping_def)

text \<open>
  C10 as stated fails: the payload parses and has its three fields, \<^verbatim>\<open>Delete\<close> succeeds,
  \<^verbatim>\<open>Create\<close> fails; the caller gets an error body, not a record.
\<close>

theorem DELETE_Create_failure:
  "Decode (example_mgm False) ''payload'' = Inr example_mapping \<and>
   mapping_IPAddress example_mapping \<noteq> [] \<and> mapping_Package example_mapping \<noteq> [] \<and>
   mapping_Platform example_mapping \<noteq> [] \<and>
   Delete (example_mgm False) example_mapping [] = (None, []) \<and>
   exportHandler_ServeHTTP (example_mgm False) [] ''DELETE'' ''payload'' =
     ([Coll_Delete example_mapping,
       Infof ''mappingHandler.ServeHTTP: adding mapping for IP address '',
       Header_Set ''Content-Type'' ''application/json; charset=utf-8'',
       Coll_Create example_mapping,
       WriteHeader 500,
       Errorf ''db.ServeHTTP: error '',
       Encode_responseBody \<lparr>responseBody_Success = False,
                            responseBody_Message = ''error writing to database''\<rparr>],
      [])"
  by (simp add: exportHandler_ServeHTTP_def example_mgm_def example_mapping_def)

section \<open>The order of the captured fields\<close>

lemma values_of_simps:
  "values_of n [] = []"
  "values_of n ((k, v) # kvs) = (if k = n then v # values_of n kvs else values_of n kvs)"
  by (simp_all add: values_of_def)

lemma values_of_empty: "values_of n kvs = [] \<longleftrightarrow> n \<notin> fst ` set kvs"
  by (induction kvs) (auto simp: values_of_def)

lemma Pair_values_of: "map (Pair n) (values_of n kvs) = filter (\<lambda>kv. fst kv = n) kvs"
  by (induction kvs) (auto simp: values_of_def)

lemma Values_append_apply:
  "Values_append m k v n =
     (if n = k then Some ((case m k of None \<Rightarrow> [] | Some vs \<Rightarrow> vs) @ [v]) else m n)"
  by (simp add: Values_append_def split: option.splits)

text \<open>What \<^verbatim>\<open>parseQuery\<close> leaves under a name: what was there, then the values of the name.\<close>

lemma parseQuery_lookup:
  "fst (parseQuery m e segs) n =
     (if values_of n (List.map_filter setting_pair segs) = [] then m n
      else Some ((case m n of None \<Rightarrow> [] | Some xs \<Rightarrow> xs)
                 @ values_of n (List.map_filter setting_pair segs)))"
proof (induction segs arbitrary: m e)
  case Nil
  then show ?case by (simp add: map_filter_simps values_of_simps)
next
  case (Cons key rest)
  show ?case
  proof (cases "parse_setting key")
    case Semicolon
    then have sp: "setting_pair key = None" by (simp add: setting_pair_def)
    from Semicolon show ?thesis using Cons.IH by (simp add: map_filter_simps sp)
  next
    case Skipped
    then have sp: "setting_pair key = None" by (simp add: setting_pair_def)
    from Skipped show ?thesis using Cons.IH by (simp add: map_filter_simps sp)
  next
    case (Malformed err1)
    then have sp: "setting_pair key = None" by (simp add: setting_pair_def)
    from Malformed show ?thesis using Cons.IH by (simp add: map_filter_simps sp)
  next
    case (Setting k v)
    then have sp: "setting_pair key = Some (k, v)" by (simp add: setting_pair_def)
    from Setting
    have step: "parseQuery m e (key # rest) = parseQuery (Values_append m k v) e rest"
      by simp
    show ?thesis
      unfolding step Cons.IH [of "Values_append m k v" e]
      by (simp add: map_filter_simps sp values_of_simps Values_append_apply)
  qed
qed

lemma ParseQuery_lookup:
  "fst (ParseQuery body) n =
     (if n \<in> fst ` set (form_pairs body) then Some (values_of n (form_pairs body)) else None)"
  by (simp add: ParseQuery_def parseQuery_lookup form_pairs_def values_of_empty)

lemma dom_ParseQuery: "dom (fst (ParseQuery body)) = fst ` set (form_pairs body)"
  by (auto simp: ParseQuery_lookup dom_def)

lemma range_pairs_ParseQuery:
  "range_pairs ks (fst (ParseQuery body)) =
     concat (map (\<lambda>n. filter (\<lambda>kv. fst kv = n) (form_pairs body)) ks)"
proof -
  have "(case fst (ParseQuery body) n of None \<Rightarrow> [] | Some vs \<Rightarrow> map (Pair n) vs) =
        filter (\<lambda>kv. fst kv = n) (form_pairs body)" for n
    using values_of_empty [of n "form_pairs body"]
    by (simp add: ParseQuery_lookup Pair_values_of [symmetric])
  then show ?thesis by (simp add: range_pairs_def)
qed

lemma mset_groups:
  "distinct ks \<Longrightarrow>
   mset (concat (map (\<lambda>n. filter (\<lambda>kv. fst kv = n) kvs) ks)) =
   mset (filter (\<lambda>kv. fst kv \<in> set ks) kvs)"
proof (induction ks)
  case Nil
  then show ?case by simp
next
  case (Cons a ks)
  have "mset (filter (\<lambda>kv. fst kv = a) kvs) + mset (filter (\<lambda>kv. fst kv \<in> set ks) kvs) =
        mset (filter (\<lambda>kv. fst kv = a \<or> fst kv \<in> set ks) kvs)"
    using Cons.prems by (induction kvs) auto
  with Cons show ?case by simp
qed

lemma mset_range_pairs_ParseQuery:
  assumes "range_order ks (fst (ParseQuery body))"
  shows "mset (range_pairs ks (fst (ParseQuery body))) = mset (form_pairs body)"
proof -
  from assms have d: "distinct ks" and s: "set ks = fst ` set (form_pairs body)"
    by (simp_all add: range_order_def dom_ParseQuery)
  have "filter (\<lambda>kv. fst kv \<in> set ks) (form_pairs body) = form_pairs body"
    using s by (simp add: filter_id_conv)
  with mset_groups [OF d, of "form_pairs body"] show ?thesis
    by (simp add: range_pairs_ParseQuery)
qed

text \<open>The pairs a loop over a map produces for one name: the values stored under it.\<close>

lemma range_pairs_name:
  assumes "range_order ks m"
  shows "filter (\<lambda>kv. fst kv = n) (range_pairs ks m) =
         map (Pair n) (case m n of None \<Rightarrow> [] | Some vs \<Rightarrow> vs)"
proof -
  have sel: "filter (\<lambda>kv. fst kv = n) (case m k of None \<Rightarrow> [] | Some vs \<Rightarrow> map (Pair k) vs) =
        (if k = n then map (Pair n) (case m n of None \<Rightarrow> [] | Some vs \<Rightarrow> vs) else [])" for k
    by (simp split: option.splits)
  have grp: "distinct xs \<Longrightarrow>
        filter (\<lambda>kv. fst kv = n) (range_pairs xs m) =
        (if n \<in> set xs then map (Pair n) (case m n of None \<Rightarrow> [] | Some vs \<Rightarrow> vs) else [])"
    for xs
  proof (induction xs)
    case Nil
    then show ?case by (simp add: range_pairs_def)
  next
    case (Cons k xs)
    then have "filter (\<lambda>kv. fst kv = n) (range_pairs xs m) =
        (if n \<in> set xs then map (Pair n) (case m n of None \<Rightarrow> [] | Some vs \<Rightarrow> vs) else [])"
      by simp
    moreover have "range_pairs (k # xs) m =
        (case m k of None \<Rightarrow> [] | Some vs \<Rightarrow> map (Pair k) vs) @ range_pairs xs m"
      by (simp add: range_pairs_def)
    ultimately show ?case using Cons.prems sel [of k] by auto
  qed
  from assms have "distinct ks" and "n \<notin> set ks \<Longrightarrow> m n = None"
    by (auto simp: range_order_def)
  with grp [of ks] show ?thesis by (cases "n \<in> set ks") simp_all
qed

lemma postData_form:
  assumes "postData L ks req True = (Inr (Some pd), req', evs)"
      and "PostData_MimeType pd = ''application/x-www-form-urlencoded''"
  shows "PostData_Params pd = form_params ks (fst (ParseQuery (pending (req_Body req))))"
  using assms
  by (auto simp: postData_def Let_def BodyReader_def ReadAll_def NewReader_def
           split: if_splits sum.splits prod.splits option.splits
           dest!: SnapshotRequest_Inr)

lemma NewRequest_fields:
  assumes "NewRequest L ro req withBody = (Inr r, req', evs)"
  shows "Request_QueryString r =
           map (\<lambda>(n, v). \<lparr>QueryString_Name = n, QueryString_Value = v\<rparr>)
             (range_pairs (query_order ro) (fst (ParseQuery (req_RawQuery req))))"
    and "Request_Headers r = headers (header_order ro) (RequestHeader_Map L req)"
    and "Request_Cookies r = cookies L (req_Cookies req)"
  using assms
  by (auto simp: NewRequest_def Let_def split: prod.splits sum.splits)

lemma ParseQuery_values:
  "(case fst (ParseQuery q) n of None \<Rightarrow> [] | Some vs \<Rightarrow> vs) = values_of n (form_pairs q)"
  using values_of_empty [of n "form_pairs q"] by (auto simp: ParseQuery_lookup)

text \<open>
  C6, as the code has it.  For a URL-encoded body that \<^verbatim>\<open>postData\<close> captures, with \<open>ks\<close> the
  order in which the runtime ranges over the parsed form:
  \<^item> the Params are, name by name in the order \<open>ks\<close>, one Param for each value of the name,
    the values of one name in the order of the body;
  \<^item> there is exactly one Param for each name/value pair of the body;
  \<^item> \<open>ks\<close> is any enumeration without repetition of the names of the body.
  The Headers come from the same kind of loop over the header map: the values of one name
  are in their stored order.  The Cookies follow the slice of the request's cookies.
  The QueryString of a request that \<^verbatim>\<open>NewRequest\<close> builds comes from the same loop over the
  parsed query: name by name in the order the runtime chooses, the values of one name in
  the order of the query, one element for each name/value pair; its Headers and Cookies
  are those of \<^verbatim>\<open>headers\<close> and \<^verbatim>\<open>cookies\<close>.
\<close>

theorem captured_fields_order:
  assumes run: "postData L ks req True = (Inr (Some pd), req', evs)"
      and mt: "PostData_MimeType pd = ''application/x-www-form-urlencoded''"
      and ord: "range_order ks (fst (ParseQuery (pending (req_Body req))))"
      and hord: "range_order hks hs"
      and nr: "NewRequest L2 ro req2 withBody = (Inr r, req2', evs2)"
      and qord: "range_order (query_order ro) (fst (ParseQuery (req_RawQuery req2)))"
  shows "PostData_Params pd =
           concat (map (\<lambda>n. map (\<lambda>v. \<lparr>Param_Name = n, Param_Value = v, Param_Filename = [],
                                        Param_ContentType = []\<rparr>)
                              (values_of n (form_pairs (pending (req_Body req))))) ks) \<and>
         mset (PostData_Params pd) =
           mset (map (\<lambda>(n, v). \<lparr>Param_Name = n, Param_Value = v, Param_Filename = [],
                                 Param_ContentType = []\<rparr>)
                   (form_pairs (pending (req_Body req)))) \<and>
         distinct ks \<and> set ks = fst ` set (form_pairs (pending (req_Body req))) \<and>
         (\<forall>n. map Header_Value (filter (\<lambda>h. Header_Name h = n) (headers hks hs)) =
               (case hs n of None \<Rightarrow> [] | Some vs \<Rightarrow> vs)) \<and>
         map Cookie_Name (cookies L cs) = map http_Cookie_Name cs \<and>
         map Cookie_Value (cookies L cs) = map http_Cookie_Value cs \<and>
         Request_QueryString r =
           concat (map (\<lambda>n. map (\<lambda>v. \<lparr>QueryString_Name = n, QueryString_Value = v\<rparr>)
                              (values_of n (form_pairs (req_RawQuery req2))))
                     (query_order ro)) \<and>
         (\<forall>n. map QueryString_Value
                 (filter (\<lambda>q. QueryString_Name q = n) (Request_QueryString r)) =
               values_of n (form_pairs (req_RawQuery req2))) \<and>
         mset (Request_QueryString r) =
           mset (map (\<lambda>(n, v). \<lparr>QueryString_Name = n, QueryString_Value = v\<rparr>)
                   (form_pairs (req_RawQuery req2))) \<and>
         Request_Headers r = headers (header_order ro) (RequestHeader_Map L2 req2) \<and>
         Request_Cookies r = cookies L2 (req_Cookies req2)"
proof -
  let ?body = "pending (req_Body req)"
  let ?mk = "\<lambda>(n, v). \<lparr>Param_Name = n, Param_Value = v, Param_Filename = [],
                         Param_ContentType = []\<rparr>"
  let ?mq = "\<lambda>(n, v). \<lparr>QueryString_Name = n, QueryString_Value = v\<rparr>"
  let ?raw = "req_RawQuery req2"
  have params: "PostData_Params pd = map ?mk (range_pairs ks (fst (ParseQuery ?body)))"
    using postData_form [OF run mt] by (simp add: form_params_def)
  have "map ?mk (range_pairs ks (fst (ParseQuery ?body))) =
        concat (map (\<lambda>n. map (\<lambda>v. ?mk (n, v)) (values_of n (form_pairs ?body))) ks)"
    by (simp add: range_pairs_ParseQuery map_concat comp_def Pair_values_of [symmetric])
  with params have first: "PostData_Params pd =
        concat (map (\<lambda>n. map (\<lambda>v. \<lparr>Param_Name = n, Param_Value = v, Param_Filename = [],
                                     Param_ContentType = []\<rparr>)
                           (values_of n (form_pairs ?body))) ks)"
    by simp
  have second: "mset (PostData_Params pd) = mset (map ?mk (form_pairs ?body))"
    using mset_range_pairs_ParseQuery [OF ord] by (simp add: params)
  have third: "distinct ks" and third': "set ks = fst ` set (form_pairs ?body)"
    using ord by (simp_all add: range_order_def dom_ParseQuery)
  have fourth: "map Header_Value (filter (\<lambda>h. Header_Name h = n) (headers hks hs)) =
        (case hs n of None \<Rightarrow> [] | Some vs \<Rightarrow> vs)" for n
  proof -
    have "filter (\<lambda>h. Header_Name h = n) (headers hks hs) =
          map (\<lambda>(n, v). \<lparr>Header_Name = n, Header_Value = v\<rparr>)
            (filter (\<lambda>kv. fst kv = n) (range_pairs hks hs))"
      by (simp add: headers_def filter_map comp_def case_prod_unfold)
    then show ?thesis
      by (simp add: range_pairs_name [OF hord] comp_def)
  qed
  have fifth: "map Cookie_Name (cookies L cs) = map http_Cookie_Name cs"
    and sixth: "map Cookie_Value (cookies L cs) = map http_Cookie_Value cs"
    by (simp_all add: cookies_def comp_def)
  note fields = NewRequest_fields [OF nr]
  have query: "Request_QueryString r = map ?mq (range_pairs (query_order ro) (fst (ParseQuery ?raw)))"
    by (rule fields)
  have "map ?mq (range_pairs (query_order ro) (fst (ParseQuery ?raw))) =
        concat (map (\<lambda>n. map (\<lambda>v. ?mq (n, v)) (values_of n (form_pairs ?raw)))
                  (query_order ro))"
    by (simp add: range_pairs_ParseQuery map_concat comp_def Pair_values_of [symmetric])
  with query have seventh: "Request_QueryString r =
        concat (map (\<lambda>n. map (\<lambda>v. \<lparr>QueryString_Name = n, QueryString_Value = v\<rparr>)
                           (values_of n (form_pairs ?raw))) (query_order ro))"
    by simp
  have eighth: "map QueryString_Value
                 (filter (\<lambda>q. QueryString_Name q = n) (Request_QueryString r)) =
               values_of n (form_pairs ?raw)" for n
  proof -
    have "filter (\<lambda>q. QueryString_Name q = n) (Request_QueryString r) =
          map ?mq (filter (\<lambda>kv. fst kv = n)
                     (range_pairs (query_order ro) (fst (ParseQuery ?raw))))"
      by (simp add: query filter_map comp_def case_prod_unfold)
    then show ?thesis
      by (simp add: range_pairs_name [OF qord] comp_def ParseQuery_values)
  qed
  have ninth: "mset (Request_QueryString r) = mset (map ?mq (form_pairs ?raw))"
    using mset_range_pairs_ParseQuery [OF qord] by (simp add: query)
  show ?thesis
    by (intro conjI allI)
       (rule first second third third' fourth fifth sixth seventh eighth ninth fields)+
qed

lemma ParseQuery_x1y2x3:
  "ParseQuery ''x=1&y=2&x=3'' = ([''x'' \<mapsto> [''1'', ''3''], ''y'' \<mapsto> [''2'']], None)"
proof -
  have "[''x'' \<mapsto> [''1''], ''y'' \<mapsto> [''2''], ''x'' \<mapsto> [''1'', ''3'']] =
        [''x'' \<mapsto> [''1'', ''3''], ''y'' \<mapsto> [''2'']]"
    by (rule ext) simp
  then show ?thesis by (simp add: query_defs)
qed

lemma NewRequest_query_request:
  "NewRequest (example_lib (Inr []) None)
     \<lparr>header_order = [], query_order = [''x'', ''y''], form_order = []\<rparr> query_request True =
   (Inr \<lparr>Request_Method = ''GET'', Request_URL = ''http://example.com/find?x=1&y=2&x=3'',
         Request_HTTPVersion = ''HTTP/1.1'', Request_Cookies = [], Request_Headers = [],
         Request_QueryString =
           [\<lparr>QueryString_Name = ''x'', QueryString_Value = ''1''\<rparr>,
            \<lparr>QueryString_Name = ''x'', QueryString_Value = ''3''\<rparr>,
            \<lparr>QueryString_Name = ''y'', QueryString_Value = ''2''\<rparr>],
         Request_PostData = None, Request_HeadersSize = - 1, Request_BodySize = 0\<rparr>,
    query_request, [])"
  by (simp add: example_lib_def query_request_def NewReader_def NewRequest_def postData_def
        headers_def cookies_def range_pairs_def Let_def ParseQuery_x1y2x3)

lemma postData_a1a2b3:
  "postData (example_lib (Inr []) None) ks (form_request ''a=1&a=2&b=3'') True =
     (Inr (Some \<lparr>PostData_MimeType = ''application/x-www-form-urlencoded'',
                 PostData_Params =
                   form_params ks [''a'' \<mapsto> [''1'', ''2''], ''b'' \<mapsto> [''3'']],
                 PostData_Text = []\<rparr>),
      form_request ''a=1&a=2&b=3'', [])"
  by (simp add: example_defs postData_def Header_Get_def SnapshotRequest_def ReadAll_def
        BodyReader_def Let_def ParseQuery_a1a2b3)

theorem captured_fields_order_witness:
  "postData (example_lib (Inr []) None) [''a'', ''b''] (form_request ''a=1&a=2&b=3'') True =
     (Inr (Some \<lparr>PostData_MimeType = ''application/x-www-form-urlencoded'',
                 PostData_Params =
                   [\<lparr>Param_Name = ''a'', Param_Value = ''1'', Param_Filename = [],
                     Param_ContentType = []\<rparr>,
                    \<lparr>Param_Name = ''a'', Param_Value = ''2'', Param_Filename = [],
                     Param_ContentType = []\<rparr>,
                    \<lparr>Param_Name = ''b'', Param_Value = ''3'', Param_Filename = [],
                     Param_ContentType = []\<rparr>],
                 PostData_Text = []\<rparr>),
      form_request ''a=1&a=2&b=3'', []) \<and>
   range_order [''a'', ''b''] (fst (ParseQuery ''a=1&a=2&b=3'')) \<and>
   range_order [''Content-Type''] (req_Header (form_request ''a=1&a=2&b=3'')) \<and>
   set [''a'', ''b''] = fst ` set (form_pairs ''a=1&a=2&b=3'') \<and>
   NewRequest (example_lib (Inr []) None)
     \<lparr>header_order = [], query_order = [''x'', ''y''], form_order = []\<rparr> query_request True =
     (Inr \<lparr>Request_Method = ''GET'', Request_URL = ''http://example.com/find?x=1&y=2&x=3'',
           Request_HTTPVersion = ''HTTP/1.1'', Request_Cookies = [], Request_Headers = [],
           Request_QueryString =
             [\<lparr>QueryString_Name = ''x'', QueryString_Value = ''1''\<rparr>,
              \<lparr>QueryString_Name = ''x'', QueryString_Value = ''3''\<rparr>,
              \<lparr>QueryString_Name = ''y'', QueryString_Value = ''2''\<rparr>],
           Request_PostData = None, Request_HeadersSize = - 1, Request_BodySize = 0\<rparr>,
      query_request, []) \<and>
   range_order [''x'', ''y''] (fst (ParseQuery ''x=1&y=2&x=3''))"
proof -
  let ?pd = "\<lparr>PostData_MimeType = ''application/x-www-form-urlencoded'',
              PostData_Params =
                [\<lparr>Param_Name = ''a'', Param_Value = ''1'', Param_Filename = [],
                  Param_ContentType = []\<rparr>,
                 \<lparr>Param_Name = ''a'', Param_Value = ''2'', Param_Filename = [],
                  Param_ContentType = []\<rparr>,
                 \<lparr>Param_Name = ''b'', Param_Value = ''3'', Param_Filename = [],
                  Param_ContentType = []\<rparr>],
              PostData_Text = []\<rparr>"
  let ?ro = "\<lparr>header_order = [], query_order = [''x'', ''y''], form_order = []\<rparr>"
  have run: "postData (example_lib (Inr []) None) [''a'', ''b'']
               (form_request ''a=1&a=2&b=3'') True =
             (Inr (Some ?pd), form_request ''a=1&a=2&b=3'', [])"
    by (simp add: postData_a1a2b3 form_params_def range_pairs_def)
  have mt: "PostData_MimeType ?pd = ''application/x-www-form-urlencoded''"
    by simp
  have body: "pending (req_Body (form_request ''a=1&a=2&b=3'')) = ''a=1&a=2&b=3''"
    by (simp add: form_request_def NewReader_def)
  have ord: "range_order [''a'', ''b''] (fst (ParseQuery ''a=1&a=2&b=3''))"
    by (auto simp: range_order_def ParseQuery_a1a2b3)
  have hord: "range_order [''Content-Type''] (req_Header (form_request ''a=1&a=2&b=3''))"
    by (auto simp: range_order_def form_request_def)
  have ord': "range_order [''a'', ''b'']
               (fst (ParseQuery (pending (req_Body (form_request ''a=1&a=2&b=3'')))))"
    unfolding body by (rule ord)
  have qord: "range_order [''x'', ''y''] (fst (ParseQuery ''x=1&y=2&x=3''))"
    by (auto simp: range_order_def ParseQuery_x1y2x3)
  have qord': "range_order (query_order ?ro) (fst (ParseQuery (req_RawQuery query_request)))"
    using qord by (simp add: query_request_def)
  note nr = NewRequest_query_request
  have "set [''a'', ''b''] =
        fst ` set (form_pairs (pending (req_Body (form_request ''a=1&a=2&b=3''))))"
    by (rule captured_fields_order [OF run mt ord' hord nr qord', of "[]",
          THEN conjunct2, THEN conjunct2, THEN conjunct2, THEN conjunct1])
  then have names: "set [''a'', ''b''] = fst ` set (form_pairs ''a=1&a=2&b=3'')"
    unfolding body .
  show ?thesis
    by (intro conjI) (rule run ord hord names nr qord)+
qed

text \<open>
  C6 as stated fails: for the body \<^verbatim>\<open>a=1&a=2&b=3\<close> the runtime may range over the parsed
  form with \<^verbatim>\<open>b\<close> first, and then the Params are \<^verbatim>\<open>b=3\<close>, \<^verbatim>\<open>a=1\<close>, \<^verbatim>\<open>a=2\<close>.
\<close>

theorem form_params_b_first:
  "range_order [''b'', ''a''] (fst (ParseQuery ''a=1&a=2&b=3'')) \<and>
   postData (example_lib (Inr []) None) [''b'', ''a''] (form_request ''a=1&a=2&b=3'') True =
     (Inr (Some \<lparr>PostData_MimeType = ''application/x-www-form-urlencoded'',
                 PostData_Params =
                   [\<lparr>Param_Name = ''b'', Param_Value = ''3'', Param_Filename = [],
                     Param_ContentType = []\<rparr>,
                    \<lparr>Param_Name = ''a'', Param_Value = ''1'', Param_Filename = [],
                     Param_ContentType = []\<rparr>,
                    \<lparr>Param_Name = ''a'', Param_Value = ''2'', Param_Filename = [],
                     Param_ContentType = []\<rparr>],
                 PostData_Text = []\<rparr>),
      form_request ''a=1&a=2&b=3'', [])"
proof -
  have "range_order [''b'', ''a''] (fst (ParseQuery ''a=1&a=2&b=3''))"
    by (auto simp: range_order_def ParseQuery_a1a2b3)
  then show ?thesis
    by (simp add: postData_a1a2b3 form_params_def range_pairs_def)
qed

section \<open>Properties of the codec\<close>

subsection \<open>Base64 and UTF-8\<close>

lemma div_bounds:
  fixes x :: nat
  assumes "x < 256"
  shows "x div 4 < 64" "x div 16 < 16" "x div 64 < 4"
  using assms by (simp_all add: less_mult_imp_div_less)

lemma b64_bounds:
  fixes x y z :: nat
  assumes "x < 256" "y < 256" "z < 256"
  shows "x div 4 < 64" "x mod 4 * 16 + y div 16 < 64" "y mod 16 * 4 + z div 64 < 64"
    "z mod 64 < 64" "x mod 4 * 16 < 64" "y mod 16 * 4 < 64"
proof -
  have a: "x mod 4 < 4" "y mod 16 < 16" by simp_all
  note b = div_bounds [OF assms(2)] div_bounds [OF assms(3)]
  show "x div 4 < 64" using assms(1) by (rule div_bounds)
  show "x mod 4 * 16 + y div 16 < 64" using a(1) b(2) by linarith
  show "y mod 16 * 4 + z div 64 < 64" using a(2) b(6) by linarith
  show "z mod 64 < 64" by simp
  show "x mod 4 * 16 < 64" using a(1) by linarith
  show "y mod 16 * 4 < 64" using a(2) by linarith
qed

lemma b64_bytes:
  fixes x y z :: nat
  assumes "y < 256" "z < 256"
  shows "x div 4 * 4 + (x mod 4 * 16 + y div 16) div 16 = x"
    "(x mod 4 * 16 + y div 16) mod 16 * 16 + (y mod 16 * 4 + z div 64) div 4 = y"
    "(y mod 16 * 4 + z div 64) mod 4 * 64 + z mod 64 = z"
    "x div 4 * 4 + (x mod 4 * 16) div 16 = x"
    "(x mod 4 * 16 + y div 16) mod 16 * 16 + (y mod 16 * 4) div 4 = y"
proof -
  have y16: "y div 16 < 16" and z64: "z div 64 < 4"
    using assms by (simp_all add: less_mult_imp_div_less)
  have d1: "(x mod 4 * 16 + y div 16) div 16 = x mod 4" using y16 by simp
  have m1: "(x mod 4 * 16 + y div 16) mod 16 = y div 16" using y16 by simp
  have d2: "(y mod 16 * 4 + z div 64) div 4 = y mod 16" using z64 by simp
  have m2: "(y mod 16 * 4 + z div 64) mod 4 = z div 64" using z64 by simp
  show "x div 4 * 4 + (x mod 4 * 16 + y div 16) div 16 = x" unfolding d1 by simp
  show "(x mod 4 * 16 + y div 16) mod 16 * 16 + (y mod 16 * 4 + z div 64) div 4 = y"
    unfolding m1 d2 by simp
  show "(y mod 16 * 4 + z div 64) mod 4 * 64 + z mod 64 = z" unfolding m2 by simp
  show "x div 4 * 4 + (x mod 4 * 16) div 16 = x" by simp
  show "(x mod 4 * 16 + y div 16) mod 16 * 16 + (y mod 16 * 4) div 4 = y"
    unfolding m1 by simp
qed


declare ValidString.simps [simp del] json_coerce.simps [simp del]

lemma json_coerce_valid: "ValidString s \<Longrightarrow> json_coerce s = s"
proof (induction s rule: ValidString.induct)
  case (1 s)
  show ?case
  proof (cases "s = []")
    case True
    then show ?thesis by (simp add: json_coerce.simps)
  next
    case False
    from "1.prems" False have size: "rune_size s \<noteq> 0"
      and rest: "ValidString (drop (rune_size s) s)"
      by (auto simp: ValidString.simps [of s] split: if_splits)
    from "1.IH" [OF False size rest]
    have "json_coerce (drop (rune_size s) s) = drop (rune_size s) s" .
    with False size show ?thesis
      by (simp add: json_coerce.simps [of s])
  qed
qed

lemma ascii_valid: "ascii s \<Longrightarrow> ValidString s"
proof (induction s)
  case Nil
  then show ?case by (simp add: ValidString.simps)
next
  case (Cons c s)
  then have "rune_size (c # s) = 1" by (simp add: ascii_def)
  with Cons show ?case by (simp add: ValidString.simps [of "c # s"] ascii_def)
qed

lemma index_of_nth:
  "distinct xs \<Longrightarrow> n < length xs \<Longrightarrow> index_of (xs ! n) xs = Some n"
proof (induction xs arbitrary: n)
  case Nil
  then show ?case by simp
next
  case (Cons x xs)
  then show ?case by (cases n) auto
qed

lemma distinct_encodeStd: "distinct encodeStd"
  by (simp add: encodeStd_def)

lemma length_encodeStd: "length encodeStd = 64"
  by (simp add: encodeStd_def)

lemma decodeMap_enc64: "n < 64 \<Longrightarrow> decodeMap (enc64 n) = Some n"
  by (simp add: decodeMap_def enc64_def index_of_nth distinct_encodeStd length_encodeStd)

lemma encodeStd_chars:
  "\<forall>c \<in> set encodeStd.
     (of_char c :: nat) < 128 \<and> c \<noteq> CHR ''='' \<and> c \<noteq> CHR 0x0D \<and> c \<noteq> CHR 0x0A"
  by (simp add: encodeStd_def)

lemma enc64_props:
  assumes "n < 64"
  shows "(of_char (enc64 n) :: nat) < 128" "enc64 n \<noteq> CHR ''=''"
    "enc64 n \<noteq> CHR 0x0D" "enc64 n \<noteq> CHR 0x0A"
proof -
  from assms have "enc64 n \<in> set encodeStd"
    by (simp add: enc64_def length_encodeStd)
  with encodeStd_chars show "(of_char (enc64 n) :: nat) < 128" "enc64 n \<noteq> CHR ''=''"
    "enc64 n \<noteq> CHR 0x0D" "enc64 n \<noteq> CHR 0x0A"
    by blast+
qed

lemma decode_quantum:
  assumes "i < 64" "j < 64" "k < 64" "l < 64"
  shows "decode_quanta (enc64 i # enc64 j # enc64 k # enc64 l # rest) =
     (case decode_quanta rest of
        Inl e \<Rightarrow> Inl e
      | Inr bs \<Rightarrow>
          Inr (char_of (i * 4 + j div 16) # char_of (j mod 16 * 16 + k div 4)
               # char_of (k mod 4 * 64 + l) # bs))"
  using assms by (simp add: decodeMap_enc64 enc64_props)

lemma decode_quantum_pad1:
  assumes "i < 64" "j < 64" "k < 64"
  shows "decode_quanta [enc64 i, enc64 j, enc64 k, CHR ''=''] =
     Inr [char_of (i * 4 + j div 16), char_of (j mod 16 * 16 + k div 4)]"
  using assms by (simp add: decodeMap_enc64 enc64_props)

lemma decode_quantum_pad2:
  assumes "i < 64" "j < 64"
  shows "decode_quanta [enc64 i, enc64 j, CHR ''='', CHR ''=''] =
     Inr [char_of (i * 4 + j div 16)]"
  using assms by (simp add: decodeMap_enc64 enc64_props)


lemma EncodeToString_unfold:
  "EncodeToString [a] =
     [enc64 (of_char a div 4), enc64 (of_char a mod 4 * 16), CHR ''='', CHR ''='']"
  "EncodeToString [a, b] =
     [enc64 (of_char a div 4), enc64 (of_char a mod 4 * 16 + of_char b div 16),
      enc64 (of_char b mod 16 * 4), CHR ''='']"
  "EncodeToString (a # b # c # rest) =
     enc64 (of_char a div 4) # enc64 (of_char a mod 4 * 16 + of_char b div 16)
     # enc64 (of_char b mod 16 * 4 + of_char c div 64) # enc64 (of_char c mod 64)
     # EncodeToString rest"
  by (simp_all only: EncodeToString.simps Let_def append.simps)

lemma decode_quanta_EncodeToString: "decode_quanta (EncodeToString bs) = Inr bs"
proof (induction bs rule: EncodeToString.induct)
  case 1
  show ?case by simp
next
  case (2 a)
  define x :: nat where "x = of_char a"
  have x: "x < 256" by (simp add: x_def)
  have "decode_quanta [enc64 (x div 4), enc64 (x mod 4 * 16), CHR ''='', CHR ''=''] =
        Inr [char_of (x div 4 * 4 + x mod 4 * 16 div 16)]"
    by (rule decode_quantum_pad2) (rule b64_bounds [OF x x x])+
  also have "x div 4 * 4 + x mod 4 * 16 div 16 = x"
    by (rule b64_bytes [OF x x])
  finally show ?case
    by (simp only: EncodeToString_unfold x_def char_of_char)
next
  case (3 a b)
  define x :: nat where "x = of_char a"
  define y :: nat where "y = of_char b"
  have x: "x < 256" and y: "y < 256" by (simp_all add: x_def y_def)
  have "decode_quanta [enc64 (x div 4), enc64 (x mod 4 * 16 + y div 16),
          enc64 (y mod 16 * 4), CHR ''=''] =
        Inr [char_of (x div 4 * 4 + (x mod 4 * 16 + y div 16) div 16),
             char_of ((x mod 4 * 16 + y div 16) mod 16 * 16 + y mod 16 * 4 div 4)]"
    by (rule decode_quantum_pad1) (rule b64_bounds [OF x y y])+
  also have "x div 4 * 4 + (x mod 4 * 16 + y div 16) div 16 = x"
    by (rule b64_bytes [OF y y])
  also have "(x mod 4 * 16 + y div 16) mod 16 * 16 + y mod 16 * 4 div 4 = y"
    by (rule b64_bytes [OF y y])
  finally show ?case
    by (simp only: EncodeToString_unfold x_def y_def char_of_char)
next
  case (4 a b c rest)
  define x :: nat where "x = of_char a"
  define y :: nat where "y = of_char b"
  define z :: nat where "z = of_char c"
  have x: "x < 256" and y: "y < 256" and z: "z < 256"
    by (simp_all add: x_def y_def z_def)
  have "decode_quanta (enc64 (x div 4) # enc64 (x mod 4 * 16 + y div 16)
          # enc64 (y mod 16 * 4 + z div 64) # enc64 (z mod 64) # EncodeToString rest) =
        (case decode_quanta (EncodeToString rest) of
           Inl e \<Rightarrow> Inl e
         | Inr bs \<Rightarrow>
             Inr (char_of (x div 4 * 4 + (x mod 4 * 16 + y div 16) div 16)
                  # char_of ((x mod 4 * 16 + y div 16) mod 16 * 16
                             + (y mod 16 * 4 + z div 64) div 4)
                  # char_of ((y mod 16 * 4 + z div 64) mod 4 * 64 + z mod 64) # bs))"
    by (rule decode_quantum) (rule b64_bounds [OF x y z])+
  also have "x div 4 * 4 + (x mod 4 * 16 + y div 16) div 16 = x"
    by (rule b64_bytes [OF y z])
  also have "(x mod 4 * 16 + y div 16) mod 16 * 16 + (y mod 16 * 4 + z div 64) div 4 = y"
    by (rule b64_bytes [OF y z])
  also have "(y mod 16 * 4 + z div 64) mod 4 * 64 + z mod 64 = z"
    by (rule b64_bytes [OF y z])
  finally show ?case
    by (simp only: EncodeToString_unfold x_def y_def z_def char_of_char "4.IH" sum.case)
qed

lemma EncodeToString_chars:
  "\<forall>c \<in> set (EncodeToString bs).
     (of_char c :: nat) < 128 \<and> c \<noteq> CHR 0x0D \<and> c \<noteq> CHR 0x0A"
proof (induction bs rule: EncodeToString.induct)
  case 1
  show ?case by simp
next
  case (2 a)
  have a: "(of_char a :: nat) < 256" by simp
  show ?case
    unfolding EncodeToString_unfold
    using enc64_props [OF b64_bounds(1) [OF a a a]] enc64_props [OF b64_bounds(5) [OF a a a]]
    by simp
next
  case (3 a b)
  have a: "(of_char a :: nat) < 256" and b: "(of_char b :: nat) < 256" by simp_all
  show ?case
    unfolding EncodeToString_unfold
    using enc64_props [OF b64_bounds(1) [OF a b b]] enc64_props [OF b64_bounds(2) [OF a b b]]
      enc64_props [OF b64_bounds(6) [OF a b b]]
    by simp
next
  case (4 a b c rest)
  have a: "(of_char a :: nat) < 256" and b: "(of_char b :: nat) < 256"
    and c: "(of_char c :: nat) < 256" by simp_all
  show ?case
    unfolding EncodeToString_unfold
    using enc64_props [OF b64_bounds(1) [OF a b c]] enc64_props [OF b64_bounds(2) [OF a b c]]
      enc64_props [OF b64_bounds(3) [OF a b c]] enc64_props [OF b64_bounds(4) [OF a b c]] 4
    by simp
qed

lemma ascii_EncodeToString: "ascii (EncodeToString bs)"
  using EncodeToString_chars [of bs] by (simp add: ascii_def)

lemma DecodeString_EncodeToString: "DecodeString (EncodeToString bs) = Inr bs"
proof -
  have "filter (\<lambda>c. c \<noteq> CHR 0x0D \<and> c \<noteq> CHR 0x0A) (EncodeToString bs) = EncodeToString bs"
    using EncodeToString_chars [of bs] by (simp add: filter_id_conv)
  then show ?thesis by (simp add: DecodeString_def decode_quanta_EncodeToString)
qed

lemma lower_keys:
  "lower_ascii ''mimeType'' = ''mimetype''"
  "lower_ascii ''params'' = ''params''"
  "lower_ascii ''text'' = ''text''"
  "lower_ascii ''encoding'' = ''encoding''"
  "lower_ascii ''size'' = ''size''"
  "lower_ascii ''name'' = ''name''"
  "lower_ascii ''value'' = ''value''"
  "lower_ascii ''fileName'' = ''filename''"
  "lower_ascii ''contentType'' = ''contenttype''"
  by (simp_all add: lower_ascii_def in_range_def char_of_eq_iff)

lemma json_coerce_ascii: "ascii s \<Longrightarrow> json_coerce s = s"
  by (simp add: json_coerce_valid ascii_valid)

lemma json_coerce_base64: "json_coerce ''base64'' = ''base64''"
  by (rule json_coerce_ascii) (simp add: ascii_def)

lemma json_coerce_EncodeToString: "json_coerce (EncodeToString bs) = EncodeToString bs"
  by (rule json_coerce_ascii) (rule ascii_EncodeToString)

lemma decode_Param_json:
  "\<exists>q. decode_struct Param_store (Param_json p) c = Inr q"
  by (simp add: decode_struct_def Param_json_def omitempty_def Param_store_def lower_keys
        json_str_def decode_string_def)

lemma decode_Param_list_json: "\<exists>qs. decode_Param_list (map Param_json ps) cur = Inr qs"
proof (induction ps arbitrary: cur)
  case Nil
  show ?case by simp
next
  case (Cons p ps)
  from decode_Param_json [of p "case cur of [] \<Rightarrow> Param_zero | c # _ \<Rightarrow> c"] obtain q
    where "decode_struct Param_store (Param_json p)
             (case cur of [] \<Rightarrow> Param_zero | c # _ \<Rightarrow> c) = Inr q" ..
  moreover from Cons [of "tl cur"] obtain qs
    where "decode_Param_list (map Param_json ps) (tl cur) = Inr qs" ..
  ultimately show ?case by simp
qed

lemma decode_Params_json: "\<exists>qs. decode_Params (Params_json ps) cur = Inr qs"
  using decode_Param_list_json [of ps cur] by (simp add: decode_Params_def Params_json_def)

lemma PostData_UnmarshalJSON_object:
  "PostData_UnmarshalJSON
     (JObject ([(''mimeType'', JString m), (''params'', pj)] @ text_member tx
               @ tag_member tag)) p =
   (if tag = Some ''base64'' then
      (case decode_Params pj [] of
         Inl e \<Rightarrow> Inl e
       | Inr qs \<Rightarrow>
           (case DecodeString (case tx of None \<Rightarrow> [] | Some s \<Rightarrow> s) of
              Inl e \<Rightarrow> Inl e
            | Inr bs \<Rightarrow>
                Inr (p\<lparr>PostData_MimeType := m, PostData_Params := qs,
                       PostData_Text := bs\<rparr>)))
    else
      (case decode_Params pj (PostData_Params p) of
         Inl e \<Rightarrow> Inl e
       | Inr qs \<Rightarrow>
           Inr (p\<lparr>PostData_MimeType := m, PostData_Params := qs,
                  PostData_Text := (case tx of None \<Rightarrow> PostData_Text p | Some s \<Rightarrow> s)\<rparr>)))"
proof -
  have empty: "DecodeString [] = Inr []"
    by (simp add: DecodeString_def)
  show ?thesis
  proof (cases tag)
    case None
    show ?thesis
      unfolding None tag_member_def text_member_def
      by (cases tx)
         (simp_all add: PostData_UnmarshalJSON_def decode_struct_def enc_store_def
            noMethod_store_def lower_keys decode_string_def split: sum.splits)
  next
    case (Some e)
    show ?thesis
    proof (cases "e = ''base64''")
      case True
      show ?thesis
        unfolding Some True tag_member_def text_member_def
        by (cases tx)
           (simp_all add: PostData_UnmarshalJSON_def decode_struct_def enc_store_def
              pdBinary_store_def pdBinary_zero_def lower_keys decode_string_def
              decode_bytes_def empty split: sum.splits)
    next
      case False
      then show ?thesis
        unfolding Some tag_member_def text_member_def
        by (cases tx)
           (simp_all add: PostData_UnmarshalJSON_def decode_struct_def enc_store_def
              noMethod_store_def lower_keys decode_string_def split: sum.splits)
    qed
  qed
qed

lemma Content_UnmarshalJSON_object:
  "Content_UnmarshalJSON
     (JObject ([(''size'', JNum n), (''mimeType'', JString m)] @ text_member tx
               @ tag_member tag)) c =
   (if - (2 ^ 63) \<le> n \<and> n < 2 ^ 63 then
      if tag = None \<or> tag = Some [] then
        Inr (c\<lparr>Content_Size := n, Content_MimeType := m,
               Content_Text := (case tx of None \<Rightarrow> [] | Some s \<Rightarrow> s),
               Content_Encoding := []\<rparr>)
      else if tag = Some ''base64'' then
        (case DecodeString (case tx of None \<Rightarrow> [] | Some s \<Rightarrow> s) of
           Inl e \<Rightarrow> Inl (DecodeTextError e)
         | Inr bs \<Rightarrow>
             Inr (c\<lparr>Content_Size := n, Content_MimeType := m, Content_Text := bs,
                    Content_Encoding := ''base64''\<rparr>))
      else Inl (UnsupportedEncoding (the tag))
    else Inl UnmarshalTypeError)"
proof (cases tag)
  case None
  show ?thesis
    unfolding None tag_member_def text_member_def
    by (cases tx)
       (simp_all add: Content_UnmarshalJSON_def decode_struct_def contentJSON_store_def
          contentJSON_zero_def lower_keys decode_string_def decode_int64_def)
next
  case (Some e)
  show ?thesis
    unfolding Some tag_member_def text_member_def
    by (cases tx)
       (simp_all add: Content_UnmarshalJSON_def decode_struct_def contentJSON_store_def
          contentJSON_zero_def lower_keys decode_string_def decode_int64_def
          split: sum.splits)
qed


text \<open>
  C2.  Serializing a PostData and deserializing the result, into any receiver, gives back
  the text: when the text is valid UTF-8 it is written as it is and the output has no
  \<^verbatim>\<open>encoding\<close> member; when it is not, the output holds the text in base64 with the
  member \<^verbatim>\<open>encoding\<close> set to \<^verbatim>\<open>base64\<close>, and decoding gives back the very bytes.
\<close>

theorem PostData_round_trip:
  "\<exists>j q. PostData_MarshalJSON p = Inr j \<and>
         PostData_UnmarshalJSON j p0 = Inr q \<and>
         PostData_Text q = PostData_Text p \<and>
         (if ValidString (PostData_Text p)
          then json_member j ''text'' = Some (JString (PostData_Text p)) \<and>
               json_member j ''encoding'' = None
          else json_member j ''text'' = Some (JString (EncodeToString (PostData_Text p))) \<and>
               json_member j ''encoding'' = Some (JString ''base64''))"
proof (cases "ValidString (PostData_Text p)")
  case True
  from decode_Params_json [of "PostData_Params p" "PostData_Params p0"]
  obtain qs
    where qs: "decode_Params (Params_json (PostData_Params p)) (PostData_Params p0) = Inr qs"
    by blast
  from True have valid_text: "json_coerce (PostData_Text p) = PostData_Text p"
    by (rule json_coerce_valid)
  let ?j = "JObject ([(''mimeType'', JString (json_coerce (PostData_MimeType p))),
                      (''params'', Params_json (PostData_Params p))]
                     @ text_member (Some (PostData_Text p)) @ tag_member None)"
  have m: "PostData_MarshalJSON p = Inr ?j"
    using True
    by (simp add: PostData_MarshalJSON_def json_str_def valid_text tag_member_def
          text_member_def)
  have u: "PostData_UnmarshalJSON ?j p0 =
        Inr (p0\<lparr>PostData_MimeType := json_coerce (PostData_MimeType p),
               PostData_Params := qs,
               PostData_Text := PostData_Text p\<rparr>)"
    unfolding PostData_UnmarshalJSON_object by (simp add: qs)
  have "json_member ?j ''text'' = Some (JString (PostData_Text p))"
    and "json_member ?j ''encoding'' = None"
    by (simp_all add: json_member_def tag_member_def text_member_def)
  with m u True show ?thesis by simp
next
  case False
  from decode_Params_json [of "PostData_Params p" "[]"]
  obtain qs where qs: "decode_Params (Params_json (PostData_Params p)) [] = Inr qs"
    by blast
  let ?j = "JObject ([(''mimeType'', JString (json_coerce (PostData_MimeType p))),
                      (''params'', Params_json (PostData_Params p))]
                     @ text_member (Some (EncodeToString (PostData_Text p)))
                     @ tag_member (Some ''base64''))"
  have m: "PostData_MarshalJSON p = Inr ?j"
    using False
    by (simp add: PostData_MarshalJSON_def json_str_def json_coerce_base64
          json_coerce_EncodeToString tag_member_def text_member_def)
  have u: "PostData_UnmarshalJSON ?j p0 =
        Inr (p0\<lparr>PostData_MimeType := json_coerce (PostData_MimeType p),
               PostData_Params := qs,
               PostData_Text := PostData_Text p\<rparr>)"
    unfolding PostData_UnmarshalJSON_object
    by (simp add: qs DecodeString_EncodeToString)
  have "json_member ?j ''text'' = Some (JString (EncodeToString (PostData_Text p)))"
    and "json_member ?j ''encoding'' = Some (JString ''base64'')"
    by (simp_all add: json_member_def tag_member_def text_member_def)
  with m u False show ?thesis by simp
qed

text \<open>
  C3, as the code has it.  On an object of the serialized shape, with the \<^verbatim>\<open>text\<close> member
  and the \<^verbatim>\<open>encoding\<close> member each absent or any string:
  \<^item> \<^verbatim>\<open>Content.UnmarshalJSON\<close> takes the text as it is when the tag is absent or empty,
    decodes it from base64 when the tag is \<^verbatim>\<open>base64\<close>, and returns an error for every
    other tag; an absent text is the empty text;
  \<^item> \<^verbatim>\<open>PostData.UnmarshalJSON\<close> decodes the text from base64 when the tag is \<^verbatim>\<open>base64\<close>
    (the Params decoded into a new slice), and for every other tag takes the text as it
    is, with no error (the Params decoded into the slice the receiver holds, an absent
    text leaving the receiver's text).
\<close>

theorem UnmarshalJSON_by_encoding_tag:
  "Content_UnmarshalJSON
     (JObject ([(''size'', JNum n), (''mimeType'', JString m)] @ text_member tx
               @ tag_member tag)) c =
   (if - (2 ^ 63) \<le> n \<and> n < 2 ^ 63 then
      if tag = None \<or> tag = Some [] then
        Inr (c\<lparr>Content_Size := n, Content_MimeType := m,
               Content_Text := (case tx of None \<Rightarrow> [] | Some s \<Rightarrow> s),
               Content_Encoding := []\<rparr>)
      else if tag = Some ''base64'' then
        (case DecodeString (case tx of None \<Rightarrow> [] | Some s \<Rightarrow> s) of
           Inl e \<Rightarrow> Inl (DecodeTextError e)
         | Inr bs \<Rightarrow>
             Inr (c\<lparr>Content_Size := n, Content_MimeType := m, Content_Text := bs,
                    Content_Encoding := ''base64''\<rparr>))
      else Inl (UnsupportedEncoding (the tag))
    else Inl UnmarshalTypeError) \<and>
   PostData_UnmarshalJSON
     (JObject ([(''mimeType'', JString m), (''params'', pj)] @ text_member tx
               @ tag_member tag)) p =
   (if tag = Some ''base64'' then
      (case decode_Params pj [] of
         Inl e \<Rightarrow> Inl e
       | Inr qs \<Rightarrow>
           (case DecodeString (case tx of None \<Rightarrow> [] | Some s \<Rightarrow> s) of
              Inl e \<Rightarrow> Inl e
            | Inr bs \<Rightarrow>
                Inr (p\<lparr>PostData_MimeType := m, PostData_Params := qs,
                       PostData_Text := bs\<rparr>)))
    else
      (case decode_Params pj (PostData_Params p) of
         Inl e \<Rightarrow> Inl e
       | Inr qs \<Rightarrow>
           Inr (p\<lparr>PostData_MimeType := m, PostData_Params := qs,
                  PostData_Text := (case tx of None \<Rightarrow> PostData_Text p | Some s \<Rightarrow> s)\<rparr>)))"
  by (intro conjI) (rule Content_UnmarshalJSON_object PostData_UnmarshalJSON_object)+

text \<open>
  C3 as stated fails: a serialized PostData tagged \<^verbatim>\<open>gzip\<close> is deserialized without an
  error, its text taken as it is.
\<close>

theorem PostData_UnmarshalJSON_other_tag:
  "PostData_UnmarshalJSON
     (JObject [(''mimeType'', JString ''text/plain''), (''params'', JArray []),
               (''text'', JString ''aGk=''), (''encoding'', JString ''gzip'')])
     PostData_zero =
   Inr \<lparr>PostData_MimeType = ''text/plain'', PostData_Params = [],
        PostData_Text = ''aGk=''\<rparr>"
  using PostData_UnmarshalJSON_object
          [of "''text/plain''" "JArray []" "Some ''aGk=''" "Some ''gzip''" PostData_zero]
  by (simp add: tag_member_def text_member_def decode_Params_def PostData_zero_def)

text \<open>
  Decoding into a receiver that holds Params: the first element of the array is decoded
  into the first Param of the receiver, whose other fields stay.
\<close>

lemma decode_Params_reuses_slots:
  "PostData_UnmarshalJSON
     (JObject [(''mimeType'', JString ''a/b''),
               (''params'', JArray [JObject [(''name'', JString ''new'')]]),
               (''text'', JString ''t'')])
     \<lparr>PostData_MimeType = [], PostData_Params =
        [\<lparr>Param_Name = ''old'', Param_Value = ''oldv'', Param_Filename = ''oldf'',
          Param_ContentType = ''oldc''\<rparr>], PostData_Text = []\<rparr> =
   Inr \<lparr>PostData_MimeType = ''a/b'', PostData_Params =
        [\<lparr>Param_Name = ''new'', Param_Value = ''oldv'', Param_Filename = ''oldf'',
          Param_ContentType = ''oldc''\<rparr>], PostData_Text = ''t''\<rparr>"
  using PostData_UnmarshalJSON_object
          [of "''a/b''" "JArray [JObject [(''name'', JString ''new'')]]" "Some ''t''" None]
  by (simp add: tag_member_def text_member_def decode_Params_def decode_struct_def
        Param_store_def lower_keys decode_string_def)

text \<open>
  C4, as the code has it.  \<^verbatim>\<open>Content.MarshalJSON\<close> goes by \<^verbatim>\<open>Content.Encoding\<close> and does not
  look at the text: with \<^verbatim>\<open>base64\<close> the text is written in base64 and tagged, with the
  empty encoding the text is written as a JSON string with no tag, and every other
  encoding is an error.  An empty text is left out.
\<close>

theorem Content_MarshalJSON_by_Encoding:
  "(if Content_Encoding c = ''base64'' then
      \<exists>j. Content_MarshalJSON c = Inr j \<and>
          json_member j ''encoding'' = Some (JString ''base64'') \<and>
          json_member j ''text'' =
            (if Content_Text c = [] then None
             else Some (JString (EncodeToString (Content_Text c))))
    else if Content_Encoding c = [] then
      \<exists>j. Content_MarshalJSON c = Inr j \<and>
          json_member j ''encoding'' = None \<and>
          json_member j ''text'' =
            (if Content_Text c = [] then None
             else Some (JString (json_coerce (Content_Text c))))
    else Content_MarshalJSON c = Inl (UnsupportedEncoding (Content_Encoding c)))"
proof -
  have empty: "EncodeToString bs = [] \<longleftrightarrow> bs = []" for bs
    by (induction bs rule: EncodeToString.induct) (simp_all add: Let_def)
  show ?thesis
    by (simp add: Content_MarshalJSON_def contentJSON_json_def omitempty_def json_str_def
          json_member_def json_coerce_base64 json_coerce_EncodeToString empty)
qed

lemma rune_size_FF: "rune_size [CHR 0xFF] = 0"
  by simp

lemma not_valid_FF: "\<not> ValidString [CHR 0xFF]"
  by (simp add: ValidString.simps [of "[CHR 0xFF]"])

lemma json_coerce_FF: "json_coerce [CHR 0xFF] = [CHR 0xEF, CHR 0xBF, CHR 0xBD]"
  by (simp add: json_coerce.simps [of "[CHR 0xFF]"] json_coerce.simps [of "[]"])

lemma EncodeToString_hi: "EncodeToString ''hi'' = ''aGk=''"
  by (simp add: enc64_def encodeStd_def)

text \<open>
  C4 as stated fails both ways: a text that is not valid UTF-8 is written untagged and not
  in base64 when the encoding is empty (the encoder replaces the byte by U+FFFD), and a
  text that is valid UTF-8 is written in base64 and tagged when the encoding says so.
\<close>

theorem Content_MarshalJSON_ignores_validity:
  "\<not> ValidString [CHR 0xFF] \<and>
   Content_MarshalJSON \<lparr>Content_Size = 1, Content_MimeType = ''image/png'',
                        Content_Text = [CHR 0xFF], Content_Encoding = []\<rparr> =
     Inr (JObject [(''size'', JNum 1), (''mimeType'', JString ''image/png''),
                   (''text'', JString [CHR 0xEF, CHR 0xBF, CHR 0xBD])]) \<and>
   ValidString ''hi'' \<and>
   Content_MarshalJSON \<lparr>Content_Size = 2, Content_MimeType = ''text/plain'',
                        Content_Text = ''hi'', Content_Encoding = ''base64''\<rparr> =
     Inr (JObject [(''size'', JNum 2), (''mimeType'', JString ''text/plain''),
                   (''text'', JString ''aGk=''), (''encoding'', JString ''base64'')])"
proof -
  have a: "json_coerce ''image/png'' = ''image/png''"
    and b: "json_coerce ''text/plain'' = ''text/plain''"
    and c: "json_coerce ''aGk='' = ''aGk=''"
    by (rule json_coerce_ascii, simp add: ascii_def)+
  have d: "ValidString ''hi''"
    by (rule ascii_valid) (simp add: ascii_def)
  show ?thesis
    by (simp add: not_valid_FF d Content_MarshalJSON_def contentJSON_json_def omitempty_def
          json_str_def a b c json_coerce_FF json_coerce_base64 EncodeToString_hi
          del: EncodeToString.simps)
qed


end
